theory Spec2Isabelle
  imports Main "HOL-Library.AList"
begin

section \<open>Python values\<close>

text \<open>
  The module \<^verbatim>\<open>pydantic/fields.py\<close> is dynamically typed: every attribute of a
  \<^verbatim>\<open>FieldInfo\<close>, every keyword argument and every annotation is a Python object. The
  objects the module inspects are collected in one datatype \<open>pyval\<close>. \<open>Annotated b ms\<close> is
  the annotation \<^verbatim>\<open>Annotated[b, *ms]\<close>, whose metadata is a tuple; \<open>ListAnnotated b ms\<close>
  is the object that the call \<^verbatim>\<open>_AnnotatedAlias(b, ms)\<close> builds from a list \<open>ms\<close>, whose
  metadata is that list. The three classes with
  \<^verbatim>\<open>__slots__\<close> are datatypes with one constructor and one selector per slot, in the
  order of the slots. Three slots are renamed: \<^verbatim>\<open>default\<close> is \<open>default_value\<close>,
  \<^verbatim>\<open>alias\<close> is \<open>alias_name\<close> and \<^verbatim>\<open>include\<close> is \<open>include_flag\<close>
  (the source's names are taken by Isabelle).
\<close>

datatype 'v fieldinfo = FieldInfo
  (annotation: 'v) (default_value: 'v) (default_factory: 'v)
  (alias_name: 'v) (alias_priority: 'v) (validation_alias: 'v) (serialization_alias: 'v)
  (title: 'v) (description: 'v) (examples: 'v) (exclude: 'v) (include_flag: 'v)
  (discriminator: 'v) (json_schema_extra: 'v) (frozen: 'v) (final: 'v)
  (validate_default: 'v) (repr: 'v) (init_var: 'v) (kw_only: 'v) (metadata: "'v list")

text \<open>
  \<^verbatim>\<open>dataclasses.Field\<close>, the external field declaration: the attributes that
  \<^verbatim>\<open>_from_dataclass_field\<close> and \<^verbatim>\<open>from_annotated_attribute\<close> read. \<open>dc_kw_only\<close> is
  \<open>None\<close> where the attribute does not exist (\<^verbatim>\<open>getattr(default, 'kw_only', None)\<close>).
\<close>

datatype 'v dataclass_field = DataclassField
  (dc_default: 'v) (dc_default_factory: 'v) (dc_repr: 'v)
  (dc_metadata: "(string \<times> 'v) list") (dc_type: 'v) (dc_kw_only: "'v option")

datatype 'v model_private_attr = ModelPrivateAttr (pa_default: 'v) (pa_default_factory: 'v)

datatype pyval =
    PNone
  | Undefined
  | Ellipsis
  | MISSING
  | PBool bool
  | PInt int
  | PStr string
  | PList "pyval list"
  | PDict "(string \<times> pyval) list"
  | PCallable "unit \<Rightarrow> pyval"
  | PType string
  | AnyType
  | Final
  | FinalOf pyval
  | InitVar
  | InitVarOf pyval
  | Annotated pyval "pyval list"
  | ListAnnotated pyval "pyval list"
  | Strict pyval
  | Gt pyval
  | Ge pyval
  | Lt pyval
  | Le pyval
  | MultipleOf pyval
  | MinLen pyval
  | MaxLen pyval
  | PydanticGeneralMetadata "(string \<times> pyval) list"
  | AliasPath "pyval list"
  | AliasChoices "pyval list"
  | PFieldInfo "pyval fieldinfo"
  | PDataclassField "pyval dataclass_field"

datatype error =
    TypeError string
  | AttributeError string
  | ValueError string
  | IndexError string
  | RuntimeError string
  | PydanticUserError string string

datatype warning = DeprecationWarning string

text \<open>A keyword-argument dictionary: keys in insertion order.\<close>

type_synonym kwargs = "(string \<times> pyval) list"

text \<open>\<^verbatim>\<open>kwargs.get(key, d)\<close>, which is also the value that \<^verbatim>\<open>kwargs.pop(key, d)\<close>
  returns.\<close>

definition kw_get :: "kwargs \<Rightarrow> string \<Rightarrow> pyval \<Rightarrow> pyval" where
  "kw_get kw k d = (case map_of kw k of None \<Rightarrow> d | Some v \<Rightarrow> v)"

text \<open>Deleting every key of a list of keys: the dictionary left after a sequence of pops.\<close>

definition kw_pop_all :: "string list \<Rightarrow> kwargs \<Rightarrow> kwargs" where
  "kw_pop_all ks kw = filter (\<lambda>(k, v). k \<notin> set ks) kw"

text \<open>Python truth value of an object (\<^verbatim>\<open>if x:\<close>, \<^verbatim>\<open>x or y\<close>): \<^verbatim>\<open>None\<close>,
  \<^verbatim>\<open>False\<close>, zero and the empty string, list and dict are false; the classes of this
  module define neither \<^verbatim>\<open>__bool__\<close> nor \<^verbatim>\<open>__len__\<close>, so their instances are true.\<close>

definition truthy :: "pyval \<Rightarrow> bool" where
  "truthy v = (case v of
      PNone \<Rightarrow> False
    | PBool b \<Rightarrow> b
    | PInt i \<Rightarrow> i \<noteq> 0
    | PStr s \<Rightarrow> s \<noteq> []
    | PList xs \<Rightarrow> xs \<noteq> []
    | PDict kvs \<Rightarrow> kvs \<noteq> []
    | _ \<Rightarrow> True)"

text \<open>\<^verbatim>\<open>a or b\<close>\<close>

definition py_or :: "pyval \<Rightarrow> pyval \<Rightarrow> pyval" where
  "py_or a b = (if truthy a then a else b)"

text \<open>\<^verbatim>\<open>isinstance\<close> tests.\<close>

definition is_FieldInfo :: "pyval \<Rightarrow> bool" where
  "is_FieldInfo v = (case v of PFieldInfo f \<Rightarrow> True | _ \<Rightarrow> False)"

definition is_DataclassField :: "pyval \<Rightarrow> bool" where
  "is_DataclassField v = (case v of PDataclassField f \<Rightarrow> True | _ \<Rightarrow> False)"

definition is_str :: "pyval \<Rightarrow> bool" where
  "is_str v = (case v of PStr s \<Rightarrow> True | _ \<Rightarrow> False)"

definition is_AliasChoices :: "pyval \<Rightarrow> bool" where
  "is_AliasChoices v = (case v of AliasChoices cs \<Rightarrow> True | _ \<Rightarrow> False)"

definition is_AliasPath :: "pyval \<Rightarrow> bool" where
  "is_AliasPath v = (case v of AliasPath p \<Rightarrow> True | _ \<Rightarrow> False)"

text \<open>Assignment to one slot of a \<^verbatim>\<open>FieldInfo\<close>.\<close>

definition set_annotation :: "'v \<Rightarrow> 'v fieldinfo \<Rightarrow> 'v fieldinfo" where
  "set_annotation v f = FieldInfo v (default_value f) (default_factory f)
     (alias_name f) (alias_priority f) (validation_alias f) (serialization_alias f)
     (title f) (description f) (examples f) (exclude f) (include_flag f)
     (discriminator f) (json_schema_extra f) (frozen f) (final f)
     (validate_default f) (repr f) (init_var f) (kw_only f) (metadata f)"

definition set_default :: "'v \<Rightarrow> 'v fieldinfo \<Rightarrow> 'v fieldinfo" where
  "set_default v f = FieldInfo (annotation f) v (default_factory f)
     (alias_name f) (alias_priority f) (validation_alias f) (serialization_alias f)
     (title f) (description f) (examples f) (exclude f) (include_flag f)
     (discriminator f) (json_schema_extra f) (frozen f) (final f)
     (validate_default f) (repr f) (init_var f) (kw_only f) (metadata f)"

definition set_final :: "'v \<Rightarrow> 'v fieldinfo \<Rightarrow> 'v fieldinfo" where
  "set_final v f = FieldInfo (annotation f) (default_value f) (default_factory f)
     (alias_name f) (alias_priority f) (validation_alias f) (serialization_alias f)
     (title f) (description f) (examples f) (exclude f) (include_flag f)
     (discriminator f) (json_schema_extra f) (frozen f) v
     (validate_default f) (repr f) (init_var f) (kw_only f) (metadata f)"

definition set_init_var :: "'v \<Rightarrow> 'v fieldinfo \<Rightarrow> 'v fieldinfo" where
  "set_init_var v f = FieldInfo (annotation f) (default_value f) (default_factory f)
     (alias_name f) (alias_priority f) (validation_alias f) (serialization_alias f)
     (title f) (description f) (examples f) (exclude f) (include_flag f)
     (discriminator f) (json_schema_extra f) (frozen f) (final f)
     (validate_default f) (repr f) v (kw_only f) (metadata f)"

definition set_kw_only :: "'v \<Rightarrow> 'v fieldinfo \<Rightarrow> 'v fieldinfo" where
  "set_kw_only v f = FieldInfo (annotation f) (default_value f) (default_factory f)
     (alias_name f) (alias_priority f) (validation_alias f) (serialization_alias f)
     (title f) (description f) (examples f) (exclude f) (include_flag f)
     (discriminator f) (json_schema_extra f) (frozen f) (final f)
     (validate_default f) (repr f) (init_var f) v (metadata f)"

definition set_metadata :: "'v list \<Rightarrow> 'v fieldinfo \<Rightarrow> 'v fieldinfo" where
  "set_metadata ms f = FieldInfo (annotation f) (default_value f) (default_factory f)
     (alias_name f) (alias_priority f) (validation_alias f) (serialization_alias f)
     (title f) (description f) (examples f) (exclude f) (include_flag f)
     (discriminator f) (json_schema_extra f) (frozen f) (final f)
     (validate_default f) (repr f) (init_var f) (kw_only f) ms"

section \<open>The annotation hooks\<close>

text \<open>The annotation-introspection hooks live outside \<^verbatim>\<open>fields.py\<close>.\<close>

text \<open>
  Modelled from the spec: \<^verbatim>\<open>_typing_extra.is_annotated\<close> recognises the annotated type
  with embedded metadata, whether its metadata is a tuple or a list.
\<close>

definition is_annotated :: "pyval \<Rightarrow> bool" where
  "is_annotated a =
     (case a of Annotated b ms \<Rightarrow> True | ListAnnotated b ms \<Rightarrow> True | _ \<Rightarrow> False)"

text \<open>
  Modelled from the spec: \<^verbatim>\<open>_typing_extra.is_finalvar\<close> recognises the final marker, bare
  or applied to a type.
\<close>

definition is_finalvar :: "pyval \<Rightarrow> bool" where
  "is_finalvar a = (case a of Final \<Rightarrow> True | FinalOf b \<Rightarrow> True | _ \<Rightarrow> False)"

text \<open>The \<^verbatim>\<open>TypeError\<close> of Python's \<^verbatim>\<open>tuple + list\<close>.\<close>

definition tuple_list_error :: error where
  "tuple_list_error =
     TypeError (''can only concatenate tuple (not '' @ CHR 0x22 # ''list'' @ CHR 0x22 #
                '') to tuple'')"

text \<open>
  Modelled from the spec: \<^verbatim>\<open>typing_extensions.get_args\<close> decomposes an annotated type
  into its base and its extras, and a final marker applied to a type into that type. The
  standard library computes \<^verbatim>\<open>(tp.__origin__,) + tp.__metadata__\<close> for an annotated type,
  which is a \<^verbatim>\<open>TypeError\<close> when the metadata is a list.
\<close>

definition get_args :: "pyval \<Rightarrow> error + pyval list" where
  "get_args a =
     (case a of
        Annotated b ms \<Rightarrow> Inr (b # ms)
      | ListAnnotated b ms \<Rightarrow> Inl tuple_list_error
      | FinalOf b \<Rightarrow> Inr [b]
      | _ \<Rightarrow> Inr [])"

text \<open>The statement \<^verbatim>\<open>first_arg, *extra_args = typing_extensions.get_args(annotation)\<close>\<close>

definition unpack_args :: "pyval \<Rightarrow> error + (pyval \<times> pyval list)" where
  "unpack_args a =
     (case get_args a of
        Inl e \<Rightarrow> Inl e
      | Inr [] \<Rightarrow> Inl (ValueError ''not enough values to unpack'')
      | Inr (first_arg # extra_args) \<Rightarrow> Inr (first_arg, extra_args))"

text \<open>
  Whether an object has the attribute \<^verbatim>\<open>__module__\<close>: classes, typing forms, functions
  and instances of classes written in Python have it; \<^verbatim>\<open>None\<close>, the Ellipsis and the
  builtin scalars and containers do not.
\<close>

definition has_module :: "pyval \<Rightarrow> bool" where
  "has_module v =
     (case v of
        PNone \<Rightarrow> False
      | Ellipsis \<Rightarrow> False
      | PBool b \<Rightarrow> False
      | PInt i \<Rightarrow> False
      | PStr s \<Rightarrow> False
      | PList xs \<Rightarrow> False
      | PDict kvs \<Rightarrow> False
      | _ \<Rightarrow> True)"

text \<open>
  Modelled from the spec: \<^verbatim>\<open>typing_extensions._AnnotatedAlias(origin, metadata)\<close> builds the
  annotation-with-embedded-metadata form, here from a list of metadata. The standard
  library's constructor first merges an origin that is an annotated type already
  (\<^verbatim>\<open>origin.__metadata__ + metadata\<close>, a \<^verbatim>\<open>TypeError\<close> for a tuple and a list), then
  reads \<^verbatim>\<open>origin.__module__\<close>, and stores the metadata as it is given.
\<close>

definition generic_alias :: "pyval \<Rightarrow> pyval list \<Rightarrow> error + pyval" where
  "generic_alias origin ms =
     (if has_module origin then Inr (ListAnnotated origin ms)
      else Inl (AttributeError ''object has no attribute __module__''))"

definition AnnotatedAlias :: "pyval \<Rightarrow> pyval list \<Rightarrow> error + pyval" where
  "AnnotatedAlias origin ms =
     (case origin of
        Annotated b ms0 \<Rightarrow> Inl tuple_list_error
      | ListAnnotated b ms0 \<Rightarrow> generic_alias b (ms0 @ ms)
      | _ \<Rightarrow> generic_alias origin ms)"

text \<open>Calling an object with no argument; only a callable can be called.\<close>

definition call0 :: "pyval \<Rightarrow> error + pyval" where
  "call0 f = (case f of PCallable g \<Rightarrow> Inr (g ()) | _ \<Rightarrow> Inl (TypeError ''object is not callable''))"

section \<open>FieldInfo\<close>

text \<open>\<^verbatim>\<open>FieldInfo.metadata_lookup\<close>: outer \<open>None\<close> is \<^verbatim>\<open>KeyError\<close>, \<open>Some None\<close> a keyword
  collected into \<^verbatim>\<open>PydanticGeneralMetadata\<close>, \<open>Some (Some c)\<close> a keyword with marker \<open>c\<close>.\<close>

definition metadata_lookup :: "string \<Rightarrow> (pyval \<Rightarrow> pyval) option option" where
  "metadata_lookup = map_of
     [(''strict'', Some Strict),
      (''gt'', Some Gt),
      (''ge'', Some Ge),
      (''lt'', Some Lt),
      (''le'', Some Le),
      (''multiple_of'', Some MultipleOf),
      (''min_length'', Some MinLen),
      (''max_length'', Some MaxLen),
      (''pattern'', None),
      (''allow_inf_nan'', None),
      (''max_digits'', None),
      (''decimal_places'', None)]"

text \<open>\<^verbatim>\<open>FieldInfo._find_field_info_arg\<close>: the first \<^verbatim>\<open>FieldInfo\<close> instance of the arguments.\<close>

fun find_field_info_arg :: "pyval list \<Rightarrow> pyval fieldinfo option" where
  "find_field_info_arg [] = None"
| "find_field_info_arg (a # args) =
     (case a of PFieldInfo f \<Rightarrow> Some f | _ \<Rightarrow> find_field_info_arg args)"

text \<open>\<^verbatim>\<open>FieldInfo._extract_metadata\<close>. The test \<^verbatim>\<open>if cls._find_field_info_arg(extra_args)\<close>
  is the truth value of a \<^verbatim>\<open>FieldInfo\<close> or \<^verbatim>\<open>None\<close>: true when one is found.\<close>

definition extract_metadata :: "pyval \<Rightarrow> error + (pyval \<times> pyval list)" where
  "extract_metadata ann =
     (if ann \<noteq> PNone \<and> is_annotated ann then
        (case unpack_args ann of
           Inl e \<Rightarrow> Inl e
         | Inr (first_arg, extra_args) \<Rightarrow>
             if find_field_info_arg extra_args \<noteq> None
             then Inl (TypeError ''Field may not be used twice on the same field'')
             else Inr (first_arg, extra_args))
      else Inr (ann, []))"

text \<open>\<^verbatim>\<open>FieldInfo._collect_metadata\<close>: the loop over \<^verbatim>\<open>kwargs.items()\<close> with its two
  accumulators, then the general-metadata token at the end. The loop also deletes the
  recognised keys from the caller's dictionary, which no caller reads afterwards.\<close>

fun collect_loop :: "kwargs \<Rightarrow> pyval list \<Rightarrow> kwargs \<Rightarrow> pyval list \<times> kwargs" where
  "collect_loop [] ms general_metadata = (ms, general_metadata)"
| "collect_loop ((key, val) # rest) ms general_metadata =
     (case metadata_lookup key of
        None \<Rightarrow> collect_loop rest ms general_metadata
      | Some marker \<Rightarrow>
          if val \<noteq> PNone then
            (case marker of
               None \<Rightarrow> collect_loop rest ms (AList.update key val general_metadata)
             | Some c \<Rightarrow> collect_loop rest (ms @ [c val]) general_metadata)
          else collect_loop rest ms general_metadata)"

definition collect_metadata :: "kwargs \<Rightarrow> pyval list" where
  "collect_metadata kw =
     (case collect_loop kw [] [] of
        (ms, general_metadata) \<Rightarrow>
          if general_metadata \<noteq> [] then ms @ [PydanticGeneralMetadata general_metadata] else ms)"

text \<open>
  \<^verbatim>\<open>FieldInfo.__init__\<close>. Each slot is popped from \<^verbatim>\<open>kwargs\<close> once, so each value is
  read from the dictionary as passed and the dictionary left for \<^verbatim>\<open>_collect_metadata\<close> is
  the one without the popped keys. \<^verbatim>\<open>annotation\<close> is read with \<^verbatim>\<open>get\<close> and stays;
  \<^verbatim>\<open>alias_priority\<close> is popped only when the alias is not \<^verbatim>\<open>None\<close> (the conditional
  expression evaluates its condition first).
\<close>

definition init_popped :: "string list" where
  "init_popped = [''default'', ''default_factory'', ''alias'', ''title'', ''validation_alias'',
     ''serialization_alias'', ''description'', ''examples'', ''exclude'', ''include'',
     ''discriminator'', ''repr'', ''json_schema_extra'', ''validate_default'', ''frozen'',
     ''final'', ''init_var'', ''kw_only'']"

definition FieldInfo_init :: "kwargs \<Rightarrow> error + pyval fieldinfo" where
  "FieldInfo_init kw =
     (case extract_metadata (kw_get kw ''annotation'' PNone) of
        Inl e \<Rightarrow> Inl e
      | Inr (self_annotation, annotation_metadata) \<Rightarrow>
          let default' = kw_get kw ''default'' Undefined;
              self_default = (if default' = Ellipsis then Undefined else default');
              self_default_factory = kw_get kw ''default_factory'' PNone
          in
          if self_default \<noteq> Undefined \<and> self_default_factory \<noteq> PNone
          then Inl (TypeError ''cannot specify both default and default_factory'')
          else
            let self_alias = kw_get kw ''alias'' PNone;
                self_alias_priority =
                  (if self_alias \<noteq> PNone
                   then py_or (kw_get kw ''alias_priority'' PNone) (PInt 2)
                   else PNone);
                rest = kw_pop_all
                  (init_popped @ (if self_alias \<noteq> PNone then [''alias_priority''] else [])) kw
            in Inr (FieldInfo self_annotation self_default self_default_factory
                 self_alias self_alias_priority
                 (kw_get kw ''validation_alias'' PNone)
                 (kw_get kw ''serialization_alias'' PNone)
                 (kw_get kw ''title'' PNone)
                 (kw_get kw ''description'' PNone)
                 (kw_get kw ''examples'' PNone)
                 (kw_get kw ''exclude'' PNone)
                 (kw_get kw ''include'' PNone)
                 (kw_get kw ''discriminator'' PNone)
                 (kw_get kw ''json_schema_extra'' PNone)
                 (kw_get kw ''frozen'' PNone)
                 (kw_get kw ''final'' PNone)
                 (kw_get kw ''validate_default'' PNone)
                 (kw_get kw ''repr'' (PBool True))
                 (kw_get kw ''init_var'' PNone)
                 (kw_get kw ''kw_only'' PNone)
                 (collect_metadata rest @ annotation_metadata)))"

text \<open>\<^verbatim>\<open>FieldInfo.from_field\<close>\<close>

definition from_field :: "pyval \<Rightarrow> kwargs \<Rightarrow> error + pyval fieldinfo" where
  "from_field default' kw =
     (if ''annotation'' \<in> fst ` set kw
      then Inl (TypeError (CHR 0x22 # ''annotation'' @ CHR 0x22 #
             '' is not permitted as a Field keyword argument''))
      else FieldInfo_init ((''default'', default') # kw))"

text \<open>
  \<^verbatim>\<open>FieldInfo.is_required\<close>, \<^verbatim>\<open>FieldInfo.get_default\<close> and
  \<^verbatim>\<open>FieldInfo.rebuild_annotation\<close>. The deep-copy utility \<^verbatim>\<open>_utils.smart_deepcopy\<close>
  lives outside \<^verbatim>\<open>fields.py\<close>; it is the first argument of \<open>get_default\<close>, so that a
  result shows whether and on what the utility was called.
\<close>

definition is_required :: "pyval fieldinfo \<Rightarrow> bool" where
  "is_required self = (default_value self = Undefined \<and> default_factory self = PNone)"

definition get_default ::
    "(pyval \<Rightarrow> pyval) \<Rightarrow> pyval fieldinfo \<Rightarrow> bool \<Rightarrow> error + pyval" where
  "get_default smart_deepcopy self call_default_factory =
     (if default_factory self = PNone then Inr (smart_deepcopy (default_value self))
      else if call_default_factory then call0 (default_factory self)
      else Inr PNone)"

definition rebuild_annotation :: "pyval fieldinfo \<Rightarrow> error + pyval" where
  "rebuild_annotation self =
     (if metadata self = [] then Inr (annotation self)
      else AnnotatedAlias (annotation self) (metadata self))"

text \<open>
  The opening of \<^verbatim>\<open>from_annotation\<close> and of \<^verbatim>\<open>from_annotated_attribute\<close>: a final
  marker sets the flag, and a marker applied to a type is replaced by that type
  (\<^verbatim>\<open>get_args(annotation)[0]\<close>). The result is the flag and the annotation that the rest of
  the method works on.
\<close>

definition unwrap_final :: "pyval \<Rightarrow> error + (bool \<times> pyval)" where
  "unwrap_final ann =
     (if is_finalvar ann then
        (if ann \<noteq> Final then
           (case get_args ann of
              Inl e \<Rightarrow> Inl e
            | Inr [] \<Rightarrow> Inl (IndexError ''tuple index out of range'')
            | Inr (b # bs) \<Rightarrow> Inr (True, b))
         else Inr (True, ann))
      else Inr (False, ann))"

text \<open>\<^verbatim>\<open>[a for a in extra_args if not isinstance(a, FieldInfo)]\<close>\<close>

definition non_field_info_args :: "pyval list \<Rightarrow> pyval list" where
  "non_field_info_args extra_args = filter (\<lambda>a. \<not> is_FieldInfo a) extra_args"

text \<open>
  \<^verbatim>\<open>FieldInfo.from_annotation\<close>. The test \<^verbatim>\<open>if field_info:\<close> is true when a descriptor
  is found. The copy of the embedded descriptor is the descriptor as a value; the source
  extends the metadata list that the copy shares with the embedded descriptor, which no
  result of this method shows.
\<close>

definition from_annotation :: "pyval \<Rightarrow> error + pyval fieldinfo" where
  "from_annotation annotation0 =
     (case unwrap_final annotation0 of
        Inl e \<Rightarrow> Inl e
      | Inr (final0, ann) \<Rightarrow>
          if is_annotated ann then
            (case unpack_args ann of
               Inl e \<Rightarrow> Inl e
             | Inr (first_arg, extra_args) \<Rightarrow>
                 let final1 = (final0 \<or> is_finalvar first_arg) in
                 (case find_field_info_arg extra_args of
                    Some field_info \<Rightarrow>
                      Inr (set_metadata (metadata field_info @ non_field_info_args extra_args)
                            (set_final (PBool final1) (set_annotation first_arg field_info)))
                  | None \<Rightarrow>
                      FieldInfo_init [(''annotation'', ann), (''final'', PBool final1)]))
          else FieldInfo_init [(''annotation'', ann), (''final'', PBool final0)])"

section \<open>The builder\<close>

text \<open>
  \<^verbatim>\<open>Field(default=Undefined, *, default_factory=None, ..., **extra)\<close>. A call is given by
  its arguments by name, \<^verbatim>\<open>default\<close> included. Python binds the names of the signature to
  the parameters (\<^verbatim>\<open>None\<close> where the call is silent, \<^verbatim>\<open>Undefined\<close> for
  \<^verbatim>\<open>default\<close>, \<^verbatim>\<open>True\<close> for \<^verbatim>\<open>repr\<close>) and collects every other name in
  \<^verbatim>\<open>extra\<close>.
\<close>

definition Field_params :: "string list" where
  "Field_params = [''default'', ''default_factory'', ''alias'', ''alias_priority'',
     ''validation_alias'', ''serialization_alias'', ''title'', ''description'', ''examples'',
     ''exclude'', ''include'', ''discriminator'', ''json_schema_extra'', ''frozen'', ''final'',
     ''validate_default'', ''repr'', ''init_var'', ''kw_only'', ''pattern'', ''strict'', ''gt'',
     ''ge'', ''lt'', ''le'', ''multiple_of'', ''allow_inf_nan'', ''max_digits'',
     ''decimal_places'', ''min_length'', ''max_length'']"

definition Field_legacy :: "string list" where
  "Field_legacy = [''const'', ''min_items'', ''max_items'', ''unique_items'',
     ''allow_mutation'', ''regex'']"

text \<open>The result is the list of warnings emitted, in order, and the descriptor or the
  exception raised.\<close>

definition Field :: "kwargs \<Rightarrow> warning list \<times> (error + pyval fieldinfo)" where
  "Field args =
     (let extra = kw_pop_all Field_params args;
          const = kw_get extra ''const'' PNone
      in
      if const \<noteq> PNone
      then ([], Inl (PydanticUserError ''`const` is removed, use `Literal` instead''
                      ''deprecated-kwargs''))
      else
      let min_items = kw_get extra ''min_items'' PNone;
          w1 = (if min_items \<noteq> PNone
                then [DeprecationWarning
                  ''`min_items` is deprecated and will be removed, use `min_length` instead'']
                else []);
          min_length = (if min_items \<noteq> PNone \<and> kw_get args ''min_length'' PNone = PNone
                        then min_items else kw_get args ''min_length'' PNone);
          max_items = kw_get extra ''max_items'' PNone;
          w2 = (if max_items \<noteq> PNone
                then [DeprecationWarning
                  ''`max_items` is deprecated and will be removed, use `max_length` instead'']
                else []);
          max_length = (if max_items \<noteq> PNone \<and> kw_get args ''max_length'' PNone = PNone
                        then max_items else kw_get args ''max_length'' PNone);
          unique_items = kw_get extra ''unique_items'' PNone
      in
      if unique_items \<noteq> PNone
      then (w1 @ w2, Inl (PydanticUserError
             (''`unique_items` is removed, use `Set` instead'' @
              ''(this feature is discussed in https://github.com/pydantic/pydantic-core/issues/296)'')
             ''deprecated-kwargs''))
      else
      let allow_mutation = kw_get extra ''allow_mutation'' PNone;
          w3 = (if allow_mutation \<noteq> PNone
                then [DeprecationWarning
                  ''`allow_mutation` is deprecated and will be removed. use `frozen` instead'']
                else []);
          frozen' = (if allow_mutation = PBool False then PBool True
                     else kw_get args ''frozen'' PNone);
          regex = kw_get extra ''regex'' PNone
      in
      if regex \<noteq> PNone
      then (w1 @ w2 @ w3, Inl (PydanticUserError ''`regex` is removed. use `pattern` instead''
                                ''deprecated-kwargs''))
      else
      let extra' = kw_pop_all Field_legacy extra;
          w4 = (if extra' \<noteq> []
                then [DeprecationWarning (''Extra keyword arguments on `Field` is deprecated '' @
                       ''and will be removed. use `json_schema_extra` instead'')]
                else []);
          json_schema_extra' =
            (if extra' \<noteq> [] \<and> \<not> truthy (kw_get args ''json_schema_extra'' PNone)
             then PDict extra' else kw_get args ''json_schema_extra'' PNone);
          validation_alias' = kw_get args ''validation_alias'' PNone
      in
      if truthy validation_alias' \<and>
         \<not> (is_str validation_alias' \<or> is_AliasChoices validation_alias' \<or>
            is_AliasPath validation_alias')
      then (w1 @ w2 @ w3 @ w4, Inl (TypeError (''Invalid `validation_alias` type. '' @
              ''it should be `str`, `AliasChoices`, or `AliasPath`'')))
      else
      let alias' = kw_get args ''alias'' PNone;
          serialization_alias' =
            (if kw_get args ''serialization_alias'' PNone = PNone \<and> is_str alias'
             then alias' else kw_get args ''serialization_alias'' PNone)
      in
      (w1 @ w2 @ w3 @ w4,
       from_field (kw_get args ''default'' Undefined)
         [(''default_factory'', kw_get args ''default_factory'' PNone),
          (''alias'', alias'),
          (''alias_priority'', kw_get args ''alias_priority'' PNone),
          (''validation_alias'', py_or validation_alias' alias'),
          (''serialization_alias'', serialization_alias'),
          (''title'', kw_get args ''title'' PNone),
          (''description'', kw_get args ''description'' PNone),
          (''examples'', kw_get args ''examples'' PNone),
          (''exclude'', kw_get args ''exclude'' PNone),
          (''include'', kw_get args ''include'' PNone),
          (''discriminator'', kw_get args ''discriminator'' PNone),
          (''json_schema_extra'', json_schema_extra'),
          (''frozen'', frozen'),
          (''final'', kw_get args ''final'' PNone),
          (''pattern'', kw_get args ''pattern'' PNone),
          (''validate_default'', kw_get args ''validate_default'' PNone),
          (''repr'', kw_get args ''repr'' (PBool True)),
          (''init_var'', kw_get args ''init_var'' PNone),
          (''kw_only'', kw_get args ''kw_only'' PNone),
          (''strict'', kw_get args ''strict'' PNone),
          (''gt'', kw_get args ''gt'' PNone),
          (''ge'', kw_get args ''ge'' PNone),
          (''lt'', kw_get args ''lt'' PNone),
          (''le'', kw_get args ''le'' PNone),
          (''multiple_of'', kw_get args ''multiple_of'' PNone),
          (''min_length'', min_length),
          (''max_length'', max_length),
          (''allow_inf_nan'', kw_get args ''allow_inf_nan'' PNone),
          (''max_digits'', kw_get args ''max_digits'' PNone),
          (''decimal_places'', kw_get args ''decimal_places'' PNone)]))"

section \<open>External field declarations and the annotation with a default\<close>

text \<open>
  \<^verbatim>\<open>FieldInfo._from_dataclass_field\<close>. The call
  \<^verbatim>\<open>Field(default=..., default_factory=..., repr=..., **dc_field.metadata)\<close> is a
  \<^verbatim>\<open>TypeError\<close> of Python itself when the metadata repeats one of the three names
  (the interpreter's message also names the keyword).
\<close>

definition from_dataclass_field ::
    "pyval dataclass_field \<Rightarrow> warning list \<times> (error + pyval fieldinfo)" where
  "from_dataclass_field dc_field =
     (let default' = (if dc_default dc_field = MISSING then Undefined else dc_default dc_field);
          default_factory' = (if dc_default_factory dc_field = MISSING then PNone
                              else dc_default_factory dc_field)
      in
      if set [''default'', ''default_factory'', ''repr''] \<inter> fst ` set (dc_metadata dc_field) \<noteq> {}
      then ([], Inl (TypeError ''Field() got multiple values for keyword argument''))
      else
        (case Field ((''default'', default') # (''default_factory'', default_factory') #
                     (''repr'', dc_repr dc_field) # dc_metadata dc_field) of
           (ws, Inl e) \<Rightarrow> (ws, Inl e)
         | (ws, Inr field) \<Rightarrow>
             (case extract_metadata (dc_type dc_field) of
                Inl e \<Rightarrow> (ws, Inl e)
              | Inr (ann, annotation_metadata) \<Rightarrow>
                  (ws, Inr (set_metadata (metadata field @ annotation_metadata)
                             (set_annotation ann field))))))"

text \<open>The interpreter is Python 3.8 or later.\<close>

definition version_lt_3_8 :: bool where
  "version_lt_3_8 = False"

text \<open>
  \<^verbatim>\<open>FieldInfo.from_annotated_attribute\<close>, with the warnings of the builder that the
  external-declaration branch calls.
\<close>

definition from_annotated_attribute ::
    "pyval \<Rightarrow> pyval \<Rightarrow> warning list \<times> (error + pyval fieldinfo)" where
  "from_annotated_attribute annotation0 default' =
     (case unwrap_final annotation0 of
        Inl e \<Rightarrow> ([], Inl e)
      | Inr (final0, ann) \<Rightarrow>
          (case default' of
             PFieldInfo d \<Rightarrow>
               (case extract_metadata ann of
                  Inl e \<Rightarrow> ([], Inl e)
                | Inr (ann', annotation_metadata) \<Rightarrow>
                    ([], Inr (set_final (PBool final0)
                               (set_metadata (metadata d @ annotation_metadata)
                                 (set_annotation ann' d)))))
           | PDataclassField dc \<Rightarrow>
               if ann = InitVar \<and> version_lt_3_8
               then ([], Inl (RuntimeError
                      ''InitVar is not supported in Python 3.7 as type information is lost''))
               else
                 let init_var' = (ann = InitVar \<or> (case ann of InitVarOf t \<Rightarrow> True | _ \<Rightarrow> False));
                     ann1 = (if ann = InitVar then AnyType
                             else (case ann of InitVarOf t \<Rightarrow> t | _ \<Rightarrow> ann))
                 in
                 (case from_dataclass_field dc of
                    (ws, Inl e) \<Rightarrow> (ws, Inl e)
                  | (ws, Inr pydantic_field) \<Rightarrow>
                      (case extract_metadata ann1 of
                         Inl e \<Rightarrow> (ws, Inl e)
                       | Inr (ann', annotation_metadata) \<Rightarrow>
                           (ws, Inr (set_kw_only
                                      (case dc_kw_only dc of None \<Rightarrow> PNone | Some v \<Rightarrow> v)
                                      (set_init_var (PBool init_var')
                                        (set_final (PBool final0)
                                          (set_metadata
                                            (metadata pydantic_field @ annotation_metadata)
                                            (set_annotation ann' pydantic_field))))))))
           | _ \<Rightarrow>
               if is_annotated ann then
                 (case unpack_args ann of
                    Inl e \<Rightarrow> ([], Inl e)
                  | Inr (first_arg, extra_args) \<Rightarrow>
                      (case find_field_info_arg extra_args of
                         Some field_info \<Rightarrow>
                           if \<not> is_required field_info
                           then ([], Inl (TypeError
                                  ''Default may not be specified twice on the same field''))
                           else ([], Inr (set_metadata
                                           (metadata field_info @ non_field_info_args extra_args)
                                           (set_annotation first_arg
                                             (set_default default' field_info))))
                       | None \<Rightarrow>
                           ([], FieldInfo_init [(''annotation'', ann), (''default'', default'),
                                                (''final'', PBool final0)])))
               else ([], FieldInfo_init [(''annotation'', ann), (''default'', default'),
                                         (''final'', PBool final0)])))"

section \<open>Private attributes\<close>

text \<open>\<^verbatim>\<open>PrivateAttr\<close>; \<^verbatim>\<open>ModelPrivateAttr.__init__\<close> stores both arguments unchecked.\<close>

definition PrivateAttr :: "pyval \<Rightarrow> pyval \<Rightarrow> error + pyval model_private_attr" where
  "PrivateAttr default' default_factory' =
     (if default' \<noteq> Undefined \<and> default_factory' \<noteq> PNone
      then Inl (TypeError ''cannot specify both default and default_factory'')
      else Inr (ModelPrivateAttr default' default_factory'))"

section \<open>Concrete inputs\<close>

text \<open>A default factory: \<^verbatim>\<open>list\<close>, which returns a new empty list.\<close>

definition list_factory :: pyval where
  "list_factory = PCallable (\<lambda>u. PList [])"

text \<open>A stand-in for the deep-copy utility that marks what it copies and returns the
  \<^verbatim>\<open>Undefined\<close> singleton as it is.\<close>

definition marking_copy :: "pyval \<Rightarrow> pyval" where
  "marking_copy v = (case v of Undefined \<Rightarrow> Undefined | _ \<Rightarrow> PList [PStr ''copy of'', v])"

text \<open>Two descriptors from the builder: \<^verbatim>\<open>Field(gt=1)\<close> and \<^verbatim>\<open>Field(lt=9)\<close>.\<close>

definition gt_descriptor :: "pyval fieldinfo" where
  "gt_descriptor = projr (snd (Field [(''gt'', PInt 1)]))"

definition lt_descriptor :: "pyval fieldinfo" where
  "lt_descriptor = projr (snd (Field [(''lt'', PInt 9)]))"

text \<open>A descriptor with a default factory: \<^verbatim>\<open>Field(default_factory=list)\<close>.\<close>

definition factory_descriptor :: "pyval fieldinfo" where
  "factory_descriptor = projr (snd (Field [(''default_factory'', list_factory)]))"

section \<open>Dictionaries, slots and metadata extraction\<close>

lemma kw_get_Nil [simp]: "kw_get [] k d = d"
  by (simp add: kw_get_def)

lemma kw_get_Cons [simp]: "kw_get ((k, v) # kw) k' d = (if k = k' then v else kw_get kw k' d)"
  by (simp add: kw_get_def)

lemma sel_set_annotation [simp]:
  "annotation (set_annotation v f) = v"
  "default_value (set_annotation v f) = default_value f"
  "default_factory (set_annotation v f) = default_factory f"
  "final (set_annotation v f) = final f"
  "metadata (set_annotation v f) = metadata f"
  by (simp_all add: set_annotation_def)

lemma sel_set_default [simp]:
  "annotation (set_default v f) = annotation f"
  "default_value (set_default v f) = v"
  "default_factory (set_default v f) = default_factory f"
  "final (set_default v f) = final f"
  "metadata (set_default v f) = metadata f"
  by (simp_all add: set_default_def)

lemma sel_set_final [simp]:
  "annotation (set_final v f) = annotation f"
  "default_value (set_final v f) = default_value f"
  "default_factory (set_final v f) = default_factory f"
  "final (set_final v f) = v"
  "metadata (set_final v f) = metadata f"
  by (simp_all add: set_final_def)

lemma sel_set_metadata [simp]:
  "annotation (set_metadata ms f) = annotation f"
  "default_value (set_metadata ms f) = default_value f"
  "default_factory (set_metadata ms f) = default_factory f"
  "final (set_metadata ms f) = final f"
  "metadata (set_metadata ms f) = ms"
  by (simp_all add: set_metadata_def)

lemma extract_metadata_plain:
  "\<not> is_annotated a \<Longrightarrow> extract_metadata a = Inr (a, [])"
  by (simp add: extract_metadata_def)

lemma unpack_args_Annotated [simp]: "unpack_args (Annotated b ms) = Inr (b, ms)"
  by (simp add: unpack_args_def get_args_def)

lemma unpack_args_ListAnnotated [simp]: "unpack_args (ListAnnotated b ms) = Inl tuple_list_error"
  by (simp add: unpack_args_def get_args_def)

lemma extract_metadata_Annotated:
  "extract_metadata (Annotated b ms) =
     (if find_field_info_arg ms \<noteq> None
      then Inl (TypeError ''Field may not be used twice on the same field'')
      else Inr (b, ms))"
  by (simp add: extract_metadata_def is_annotated_def)

lemma extract_metadata_ListAnnotated:
  "extract_metadata (ListAnnotated b ms) = Inl tuple_list_error"
  by (simp add: extract_metadata_def is_annotated_def)

lemma is_annotated_cases:
  assumes "is_annotated a"
  obtains b ms where "a = Annotated b ms" | b ms where "a = ListAnnotated b ms"
  using assms by (cases a) (simp_all add: is_annotated_def)

lemma tuple_list_error_neq [simp]:
  "tuple_list_error \<noteq> TypeError ''Field may not be used twice on the same field''"
  "tuple_list_error \<noteq> TypeError ''cannot specify both default and default_factory''"
  "tuple_list_error \<noteq> TypeError ''Default may not be specified twice on the same field''"
  "TypeError ''Field may not be used twice on the same field'' \<noteq> tuple_list_error"
  "TypeError ''cannot specify both default and default_factory'' \<noteq> tuple_list_error"
  "TypeError ''Default may not be specified twice on the same field'' \<noteq> tuple_list_error"
  by (simp_all add: tuple_list_error_def)

section \<open>What a successful construction stores\<close>

lemma FieldInfo_init_Inr:
  assumes "FieldInfo_init kw = Inr f"
  shows "default_value f = (if kw_get kw ''default'' Undefined = Ellipsis then Undefined
                            else kw_get kw ''default'' Undefined)"
    and "default_factory f = kw_get kw ''default_factory'' PNone"
    and "alias_name f = kw_get kw ''alias'' PNone"
    and "alias_priority f = (if kw_get kw ''alias'' PNone \<noteq> PNone
                             then py_or (kw_get kw ''alias_priority'' PNone) (PInt 2) else PNone)"
  using assms
  by (auto simp: FieldInfo_init_def Let_def split: sum.splits prod.splits if_splits)

lemma snd_if_InlD:
  "snd (if c then (w, Inl e) else r) = Inr f \<Longrightarrow> \<not> c \<and> snd r = Inr f"
  by (cases c) auto

lemma Field_Inr:
  assumes "snd (Field args) = Inr f"
  shows "\<exists>kw. FieldInfo_init kw = Inr f \<and>
           kw_get kw ''default'' Undefined = kw_get args ''default'' Undefined \<and>
           kw_get kw ''default_factory'' PNone = kw_get args ''default_factory'' PNone \<and>
           kw_get kw ''alias'' PNone = kw_get args ''alias'' PNone \<and>
           kw_get kw ''alias_priority'' PNone = kw_get args ''alias_priority'' PNone \<and>
           kw_get kw ''annotation'' PNone = PNone"
  using assms unfolding Field_def Let_def
  apply -
  apply (drule snd_if_InlD, erule conjE)+
  apply (simp add: from_field_def)
  apply (rule exI, rule conjI, assumption)
  apply simp
  done

lemma kw_get_delete:
  "kw_get (AList.delete k kw) k' d = (if k = k' then d else kw_get kw k' d)"
  by (simp add: kw_get_def AList.delete_conv')

lemma kw_pop_all_delete:
  "k \<in> set ks \<Longrightarrow> kw_pop_all ks (AList.delete k kw) = kw_pop_all ks kw"
  by (induction kw) (auto simp: kw_pop_all_def)

lemma kw_pop_all_Cons:
  "kw_pop_all ks ((k, v) # kw) = (if k \<in> set ks then kw_pop_all ks kw else (k, v) # kw_pop_all ks kw)"
  by (simp add: kw_pop_all_def)

lemma default_in_init_popped:
  "''default'' \<in> set init_popped"
  by (simp add: init_popped_def)

lemma FieldInfo_init_delete_default:
  assumes "kw_get kw ''default'' Undefined = Ellipsis"
  shows "FieldInfo_init (AList.delete ''default'' kw) = FieldInfo_init kw"
  using assms
  by (cases "extract_metadata (kw_get kw ''annotation'' PNone)")
     (simp_all add: FieldInfo_init_def Let_def kw_get_delete kw_pop_all_delete
        default_in_init_popped split: prod.split)

lemma FieldInfo_init_default_Ellipsis:
  "FieldInfo_init ((''default'', Ellipsis) # kw) = FieldInfo_init ((''default'', Undefined) # kw)"
  by (cases "extract_metadata (kw_get kw ''annotation'' PNone)")
     (simp_all add: FieldInfo_init_def Let_def kw_pop_all_Cons default_in_init_popped
        split: prod.split)

lemma Field_delete_default:
  assumes "kw_get args ''default'' Undefined = Ellipsis"
  shows "Field (AList.delete ''default'' args) = Field args"
proof -
  have p: "kw_pop_all Field_params (AList.delete ''default'' args) = kw_pop_all Field_params args"
    by (rule kw_pop_all_delete) (simp add: Field_params_def)
  show ?thesis
    unfolding Field_def p
    using assms
    by (simp add: kw_get_delete from_field_def FieldInfo_init_default_Ellipsis Let_def
        split del: if_split cong del: if_weak_cong)
qed

section \<open>Reading the default\<close>

text \<open>
  Claim C9. For every field descriptor and every deep-copy utility: \<^verbatim>\<open>get_default\<close> with
  no default factory set returns what the utility returns for the stored default, and so,
  for a required field, the utility's copy of the \<^verbatim>\<open>Undefined\<close> sentinel, which is the
  sentinel itself for a utility that returns the singleton as it is. With a factory set and
  the caller opting in, it calls the factory and returns what the factory returns, uncopied.
  With a factory set and the caller not opting in, it returns \<^verbatim>\<open>None\<close>; neither the
  factory nor the utility is called.
\<close>

theorem get_default_cases:
  "(default_factory self = PNone \<longrightarrow>
      get_default smart_deepcopy self c = Inr (smart_deepcopy (default_value self))) \<and>
   (is_required self \<longrightarrow> get_default smart_deepcopy self c = Inr (smart_deepcopy Undefined)) \<and>
   (is_required self \<and> smart_deepcopy Undefined = Undefined \<longrightarrow>
      get_default smart_deepcopy self c = Inr Undefined) \<and>
   (default_factory self = PCallable g \<longrightarrow>
      get_default smart_deepcopy self True = Inr (g ())) \<and>
   (default_factory self \<noteq> PNone \<longrightarrow> get_default smart_deepcopy self False = Inr PNone)"
  by (simp add: get_default_def is_required_def call0_def)

theorem get_default_cases_witness:
  "get_default marking_copy (projr (FieldInfo_init [(''default'', PInt 7)])) False
     = Inr (PList [PStr ''copy of'', PInt 7]) \<and>
   get_default marking_copy (projr (FieldInfo_init [])) True = Inr Undefined \<and>
   get_default marking_copy (projr (FieldInfo_init [(''default_factory'', list_factory)])) True
     = Inr (PList []) \<and>
   get_default marking_copy (projr (FieldInfo_init [(''default_factory'', list_factory)])) False
     = Inr PNone"
proof -
  let ?d1 = "projr (FieldInfo_init [(''default'', PInt 7)])"
  let ?d2 = "projr (FieldInfo_init [])"
  let ?d3 = "projr (FieldInfo_init [(''default_factory'', list_factory)])"
  have h1: "default_factory ?d1 = PNone" and v1: "default_value ?d1 = PInt 7"
    by code_simp+
  have h2: "is_required ?d2" by code_simp
  have h3: "default_factory ?d3 = PCallable (\<lambda>u. PList [])"
    by (simp add: FieldInfo_init_def Let_def extract_metadata_def is_annotated_def
        list_factory_def)
  have h4: "default_factory ?d3 \<noteq> PNone" using h3 by simp
  have m: "marking_copy Undefined = Undefined"
    "marking_copy (PInt 7) = PList [PStr ''copy of'', PInt 7]"
    by (simp_all add: marking_copy_def)
  from get_default_cases [of ?d1 marking_copy False] h1 v1 m
  have "get_default marking_copy ?d1 False = Inr (PList [PStr ''copy of'', PInt 7])" by simp
  moreover from get_default_cases [of ?d2 marking_copy True] h2 m
  have "get_default marking_copy ?d2 True = Inr Undefined" by simp
  moreover from get_default_cases [of ?d3 marking_copy _ "\<lambda>u. PList []"] h3
  have "get_default marking_copy ?d3 True = Inr (PList [])" by simp
  moreover from get_default_cases [of ?d3 marking_copy] h4
  have "get_default marking_copy ?d3 False = Inr PNone" by simp
  ultimately show ?thesis by simp
qed

section \<open>Alias priority\<close>

text \<open>
  Claim C4, as the code has it. For every construction in which an alias is given, by the
  general constructor or by the builder: the alias priority is
  \<^verbatim>\<open>alias_priority or 2\<close>. It is 2 when the caller supplies no priority or \<^verbatim>\<open>None\<close>,
  it is the caller's integer when that is not zero, and it is 2 when the caller supplies 0:
  a false value is treated as unset.
\<close>

theorem alias_priority_rule:
  assumes "kw_get kw ''alias'' PNone \<noteq> PNone"
      and "FieldInfo_init kw = Inr f \<or> snd (Field kw) = Inr f"
  shows "alias_priority f = py_or (kw_get kw ''alias_priority'' PNone) (PInt 2) \<and>
         (kw_get kw ''alias_priority'' PNone = PNone \<longrightarrow> alias_priority f = PInt 2) \<and>
         (kw_get kw ''alias_priority'' PNone = PInt n \<longrightarrow>
            alias_priority f = (if n = 0 then PInt 2 else PInt n))"
proof -
  have g: "alias_priority f = py_or (kw_get kw ''alias_priority'' PNone) (PInt 2)"
  proof (cases "FieldInfo_init kw = Inr f")
    case True
    then show ?thesis using assms(1) by (simp add: FieldInfo_init_Inr(4))
  next
    case False
    with assms(2) have "snd (Field kw) = Inr f" by simp
    from Field_Inr [OF this] obtain kw' where
      "FieldInfo_init kw' = Inr f"
      "kw_get kw' ''alias'' PNone = kw_get kw ''alias'' PNone"
      "kw_get kw' ''alias_priority'' PNone = kw_get kw ''alias_priority'' PNone"
      by blast
    then show ?thesis using assms(1) by (simp add: FieldInfo_init_Inr(4))
  qed
  then show ?thesis by (simp add: py_or_def truthy_def)
qed

theorem alias_priority_rule_witness:
  "alias_priority (projr (FieldInfo_init [(''alias'', PStr ''x'')])) = PInt 2 \<and>
   alias_priority (projr (snd (Field [(''alias'', PStr ''x''), (''alias_priority'', PInt 1)])))
     = PInt 1"
proof -
  let ?k1 = "[(''alias'', PStr ''x'')]"
  let ?k2 = "[(''alias'', PStr ''x''), (''alias_priority'', PInt 1)]"
  have a1: "kw_get ?k1 ''alias'' PNone \<noteq> PNone" and a2: "kw_get ?k2 ''alias'' PNone \<noteq> PNone"
    by simp_all
  have r1: "FieldInfo_init ?k1 = Inr (projr (FieldInfo_init ?k1))" by code_simp
  have r2: "snd (Field ?k2) = Inr (projr (snd (Field ?k2)))" by code_simp
  from alias_priority_rule [OF a1, of "projr (FieldInfo_init ?k1)" 0] r1
  have "alias_priority (projr (FieldInfo_init ?k1)) = PInt 2" by (simp add: py_or_def truthy_def)
  moreover from alias_priority_rule [OF a2, of "projr (snd (Field ?k2))" 1] r2
  have "alias_priority (projr (snd (Field ?k2))) = PInt 1" by (simp add: py_or_def truthy_def)
  ultimately show ?thesis by simp
qed

text \<open>The claim as stated asks for priority 0 to be kept. With an alias and priority 0 the
  general constructor and the builder both store 2.\<close>

theorem alias_priority_zero_counterexample:
  "map_sum id alias_priority
     (FieldInfo_init [(''alias'', PStr ''x''), (''alias_priority'', PInt 0)]) = Inr (PInt 2) \<and>
   map_sum id alias_priority
     (snd (Field [(''alias'', PStr ''x''), (''alias_priority'', PInt 0)])) = Inr (PInt 2) \<and>
   map_sum id alias_priority
     (snd (Field [(''alias'', PStr ''x''), (''alias_priority'', PInt 0)])) \<noteq> Inr (PInt 0)"
  by code_simp

section \<open>The Ellipsis default\<close>

text \<open>
  Claim C10, as the code has it. For every construction by the general constructor or by the
  builder where the supplied default is the Ellipsis literal: the construction is exactly the
  construction with no default supplied, the stored default is \<^verbatim>\<open>Undefined\<close>, and the
  descriptor is required exactly when no default factory is supplied.
\<close>

theorem ellipsis_default_normalised:
  assumes "kw_get kw ''default'' Undefined = Ellipsis"
  shows "FieldInfo_init kw = FieldInfo_init (AList.delete ''default'' kw) \<and>
         Field kw = Field (AList.delete ''default'' kw) \<and>
         (FieldInfo_init kw = Inr f \<or> snd (Field kw) = Inr f \<longrightarrow>
            default_value f = Undefined \<and>
            is_required f = (kw_get kw ''default_factory'' PNone = PNone))"
proof -
  have "default_value f = Undefined \<and>
        is_required f = (kw_get kw ''default_factory'' PNone = PNone)"
    if "FieldInfo_init kw = Inr f \<or> snd (Field kw) = Inr f"
  proof (cases "FieldInfo_init kw = Inr f")
    case True
    then show ?thesis using assms
      by (simp add: is_required_def FieldInfo_init_Inr(1,2))
  next
    case False
    with that have "snd (Field kw) = Inr f" by simp
    from Field_Inr [OF this] obtain kw' where
      "FieldInfo_init kw' = Inr f"
      "kw_get kw' ''default'' Undefined = kw_get kw ''default'' Undefined"
      "kw_get kw' ''default_factory'' PNone = kw_get kw ''default_factory'' PNone"
      by blast
    then show ?thesis using assms
      by (simp add: is_required_def FieldInfo_init_Inr(1,2))
  qed
  then show ?thesis
    using assms by (simp add: FieldInfo_init_delete_default Field_delete_default)
qed

theorem ellipsis_default_normalised_witness:
  "FieldInfo_init [(''default'', Ellipsis), (''gt'', PInt 1)] = FieldInfo_init [(''gt'', PInt 1)] \<and>
   Field [(''default'', Ellipsis), (''gt'', PInt 1)] = Field [(''gt'', PInt 1)] \<and>
   default_value (projr (snd (Field [(''default'', Ellipsis), (''gt'', PInt 1)]))) = Undefined \<and>
   is_required (projr (snd (Field [(''default'', Ellipsis), (''gt'', PInt 1)])))"
proof -
  let ?kw = "[(''default'', Ellipsis), (''gt'', PInt 1)]"
  have h: "kw_get ?kw ''default'' Undefined = Ellipsis" by simp
  have r: "snd (Field ?kw) = Inr (projr (snd (Field ?kw)))" by code_simp
  have d: "AList.delete ''default'' ?kw = [(''gt'', PInt 1)]" by (simp add: AList.delete_eq)
  have k: "kw_get ?kw ''default_factory'' PNone = PNone" by simp
  show ?thesis
    using ellipsis_default_normalised [OF h, of "projr (snd (Field ?kw))"] r
    unfolding d k by blast
qed

text \<open>The claim as stated makes every such descriptor required. With the Ellipsis default
  and a default factory the construction succeeds and the descriptor is not required.\<close>

theorem ellipsis_with_factory_counterexample:
  "map_sum id is_required
     (FieldInfo_init [(''default'', Ellipsis), (''default_factory'', list_factory)]) = Inr False \<and>
   map_sum id is_required
     (snd (Field [(''default'', Ellipsis), (''default_factory'', list_factory)])) = Inr False"
  by code_simp

section \<open>Constraint routing in the builder\<close>

text \<open>
  Claim C7. The builder called with \<^verbatim>\<open>gt=5, pattern="^a"\<close> produces a descriptor whose
  metadata list has exactly two tokens: the greater-than token for 5, then the general-metadata
  token carrying the pattern. The order of the two keywords in the call does not matter, and
  no warning is emitted.
\<close>

theorem builder_gt_pattern_metadata:
  "map_sum id metadata (snd (Field [(''gt'', PInt 5), (''pattern'', PStr ''^a'')]))
     = Inr [Gt (PInt 5), PydanticGeneralMetadata [(''pattern'', PStr ''^a'')]] \<and>
   map_sum id metadata (snd (Field [(''pattern'', PStr ''^a''), (''gt'', PInt 5)]))
     = Inr [Gt (PInt 5), PydanticGeneralMetadata [(''pattern'', PStr ''^a'')]] \<and>
   fst (Field [(''gt'', PInt 5), (''pattern'', PStr ''^a'')]) = []"
  by code_simp

section \<open>Deprecated options of the builder\<close>

text \<open>
  Claim C8. The builder called with \<^verbatim>\<open>min_items=3\<close> and no \<^verbatim>\<open>min_length\<close> emits the
  deprecation warning, still succeeds, and the descriptor's metadata is the min-length-3
  token. Called with \<^verbatim>\<open>min_items=3, min_length=5\<close> it yields the min-length-5 token: the
  new option wins.
\<close>

theorem builder_min_items_translation:
  "fst (Field [(''min_items'', PInt 3)]) =
     [DeprecationWarning
        ''`min_items` is deprecated and will be removed, use `min_length` instead''] \<and>
   map_sum id metadata (snd (Field [(''min_items'', PInt 3)])) = Inr [MinLen (PInt 3)] \<and>
   map_sum id metadata (snd (Field [(''min_items'', PInt 3), (''min_length'', PInt 5)]))
     = Inr [MinLen (PInt 5)]"
  by code_simp

section \<open>Bare annotations\<close>

lemma unwrap_final_cases:
  "unwrap_final a =
     Inr (case a of Final \<Rightarrow> (True, Final) | FinalOf t \<Rightarrow> (True, t) | _ \<Rightarrow> (False, a))"
  by (cases a) (simp_all add: unwrap_final_def is_finalvar_def get_args_def)

lemma collect_metadata_annotation_only [simp]:
  "collect_metadata [(''annotation'', a)] = []"
  by (simp add: collect_metadata_def metadata_lookup_def)

lemma FieldInfo_init_annotation_final:
  assumes "extract_metadata a = Inr (b, ms)"
  shows "FieldInfo_init [(''annotation'', a), (''final'', fl)] =
           Inr (FieldInfo b Undefined PNone PNone PNone PNone PNone PNone PNone PNone PNone
                  PNone PNone PNone PNone fl PNone (PBool True) PNone PNone ms)"
  using assms
  by (simp add: FieldInfo_init_def Let_def kw_pop_all_def init_popped_def)

text \<open>
  Claim C6, as the code has it. For every annotation \<open>a\<close> without embedded metadata (neither
  \<open>a\<close> nor the type under a final marker is an annotated form), the bare-annotation path
  with no default succeeds, the descriptor is required, its metadata is empty, and
  \<^verbatim>\<open>rebuild_annotation()\<close> returns \<open>a\<close> with a final marker around a type removed:
  \<open>a\<close> itself whenever \<open>a\<close> is not such a marker.
\<close>

theorem from_annotation_bare:
  assumes "\<not> is_annotated a" and "\<forall>t. a = FinalOf t \<longrightarrow> \<not> is_annotated t"
  shows "\<exists>f. from_annotation a = Inr f \<and> is_required f \<and> metadata f = [] \<and>
             rebuild_annotation f = Inr (case a of FinalOf t \<Rightarrow> t | _ \<Rightarrow> a) \<and>
             ((\<forall>t. a \<noteq> FinalOf t) \<longrightarrow> rebuild_annotation f = Inr a)"
proof -
  define b where b: "b = (case a of FinalOf t \<Rightarrow> t | _ \<Rightarrow> a)"
  define fin where "fin = is_finalvar a"
  have u: "unwrap_final a = Inr (fin, b)"
    unfolding b fin_def by (cases a) (simp_all add: unwrap_final_cases is_finalvar_def)
  have nb: "\<not> is_annotated b"
    using assms b by (cases a) (simp_all add: is_annotated_def)
  have "from_annotation a = FieldInfo_init [(''annotation'', b), (''final'', PBool fin)]"
    using u nb by (simp add: from_annotation_def)
  also have "\<dots> = Inr (FieldInfo b Undefined PNone PNone PNone PNone PNone PNone PNone PNone
       PNone PNone PNone PNone PNone (PBool fin) PNone (PBool True) PNone PNone [])"
    by (rule FieldInfo_init_annotation_final) (simp add: extract_metadata_plain nb)
  finally have r: "from_annotation a = Inr (FieldInfo b Undefined PNone PNone PNone PNone PNone
       PNone PNone PNone PNone PNone PNone PNone PNone (PBool fin) PNone (PBool True) PNone
       PNone [])" .
  have "(\<forall>t. a \<noteq> FinalOf t) \<longrightarrow> b = a"
    using b by (cases a) simp_all
  with r b show ?thesis
    by (simp add: is_required_def rebuild_annotation_def)
qed

theorem from_annotation_bare_witness:
  "is_required (projr (from_annotation (PType ''int''))) \<and>
   metadata (projr (from_annotation (PType ''int''))) = [] \<and>
   rebuild_annotation (projr (from_annotation (PType ''int''))) = Inr (PType ''int'')"
proof -
  have h1: "\<not> is_annotated (PType ''int'')" by (simp add: is_annotated_def)
  have h2: "\<forall>t. PType ''int'' = FinalOf t \<longrightarrow> \<not> is_annotated t" by simp
  from from_annotation_bare [OF h1 h2] show ?thesis by auto
qed

text \<open>The claim as stated returns every such annotation unchanged. For \<^verbatim>\<open>Final[int]\<close>
  the descriptor is required and has no metadata, and the rebuilt annotation is
  \<^verbatim>\<open>int\<close>.\<close>

theorem from_annotation_final_counterexample:
  "map_sum id is_required (from_annotation (FinalOf (PType ''int''))) = Inr True \<and>
   map_sum id metadata (from_annotation (FinalOf (PType ''int''))) = Inr [] \<and>
   map_sum id rebuild_annotation (from_annotation (FinalOf (PType ''int'')))
     = Inr (Inr (PType ''int'')) \<and>
   map_sum id rebuild_annotation (from_annotation (FinalOf (PType ''int'')))
     \<noteq> Inr (Inr (FinalOf (PType ''int'')))"
  by code_simp

section \<open>Rebuilding the annotation\<close>

lemma from_annotation_ListAnnotated:
  "from_annotation (ListAnnotated b ms) = Inl tuple_list_error"
  by (simp add: from_annotation_def unwrap_final_cases is_annotated_def)

lemma generic_alias_Inr:
  "generic_alias origin ms = Inr r \<Longrightarrow> r = ListAnnotated origin ms"
  by (simp add: generic_alias_def split: if_splits)

lemma AnnotatedAlias_Inr:
  assumes "AnnotatedAlias origin ms = Inr r"
  shows "\<exists>b ms'. r = ListAnnotated b ms'"
proof (cases "is_annotated origin")
  case True
  then show ?thesis
  proof (cases rule: is_annotated_cases)
    case (1 b ms0)
    with assms show ?thesis by (simp add: AnnotatedAlias_def)
  next
    case (2 b ms0)
    with assms have "generic_alias b (ms0 @ ms) = Inr r" by (simp add: AnnotatedAlias_def)
    then show ?thesis by (blast dest: generic_alias_Inr)
  qed
next
  case False
  with assms have "generic_alias origin ms = Inr r"
    by (cases origin) (simp_all add: AnnotatedAlias_def is_annotated_def)
  then show ?thesis by (blast dest: generic_alias_Inr)
qed

text \<open>
  Claim C5 asks that, for a descriptor with a non-empty metadata list,
  \<^verbatim>\<open>rebuild_annotation()\<close> followed by the bare-annotation path gives a descriptor with the
  same annotation and the same metadata. The code does not do that. For every descriptor
  with a non-empty metadata list: whatever \<^verbatim>\<open>rebuild_annotation()\<close> returns, the
  bare-annotation path raises the \<^verbatim>\<open>TypeError\<close> of \<^verbatim>\<open>tuple + list\<close> on it, because the
  rebuilt annotation carries the metadata list where \<^verbatim>\<open>get_args\<close> needs a tuple; for a
  type annotation that is not an annotated form \<^verbatim>\<open>rebuild_annotation()\<close> does return such
  a form; and for the annotation \<^verbatim>\<open>None\<close>, which every descriptor of the builder has,
  \<^verbatim>\<open>rebuild_annotation()\<close> itself raises \<^verbatim>\<open>AttributeError\<close>.
\<close>

theorem rebuild_annotation_round_trip_raises:
  assumes "metadata f \<noteq> []"
  shows "(\<forall>r. rebuild_annotation f = Inr r \<longrightarrow> from_annotation r = Inl tuple_list_error) \<and>
         (has_module (annotation f) \<and> \<not> is_annotated (annotation f) \<longrightarrow>
            rebuild_annotation f = Inr (ListAnnotated (annotation f) (metadata f))) \<and>
         (annotation f = PNone \<longrightarrow>
            rebuild_annotation f = Inl (AttributeError ''object has no attribute __module__''))"
proof (intro conjI allI impI)
  fix r
  assume "rebuild_annotation f = Inr r"
  with assms have "AnnotatedAlias (annotation f) (metadata f) = Inr r"
    by (simp add: rebuild_annotation_def)
  from AnnotatedAlias_Inr [OF this] show "from_annotation r = Inl tuple_list_error"
    by (auto simp: from_annotation_ListAnnotated)
next
  assume "has_module (annotation f) \<and> \<not> is_annotated (annotation f)"
  with assms show "rebuild_annotation f = Inr (ListAnnotated (annotation f) (metadata f))"
    by (cases "annotation f")
       (simp_all add: rebuild_annotation_def AnnotatedAlias_def generic_alias_def
          is_annotated_def)
next
  assume "annotation f = PNone"
  with assms show
    "rebuild_annotation f = Inl (AttributeError ''object has no attribute __module__'')"
    by (simp add: rebuild_annotation_def AnnotatedAlias_def generic_alias_def has_module_def)
qed

theorem rebuild_annotation_round_trip_raises_witness:
  "rebuild_annotation
      (projr (from_annotation (Annotated (PType ''int'') [Gt (PInt 1), MaxLen (PInt 3)])))
     = Inr (ListAnnotated (PType ''int'') [Gt (PInt 1), MaxLen (PInt 3)]) \<and>
   from_annotation (ListAnnotated (PType ''int'') [Gt (PInt 1), MaxLen (PInt 3)])
     = Inl tuple_list_error \<and>
   rebuild_annotation gt_descriptor
     = Inl (AttributeError ''object has no attribute __module__'')"
proof -
  let ?f = "projr (from_annotation (Annotated (PType ''int'') [Gt (PInt 1), MaxLen (PInt 3)]))"
  have m: "metadata ?f = [Gt (PInt 1), MaxLen (PInt 3)]" and a: "annotation ?f = PType ''int''"
    by code_simp+
  have h: "metadata ?f \<noteq> []" using m by simp
  have t: "has_module (annotation ?f) \<and> \<not> is_annotated (annotation ?f)"
    using a by (simp add: has_module_def is_annotated_def)
  have g: "metadata gt_descriptor \<noteq> []" and n: "annotation gt_descriptor = PNone"
    by code_simp+
  from rebuild_annotation_round_trip_raises [OF h] t a m
  have r: "rebuild_annotation ?f = Inr (ListAnnotated (PType ''int'') [Gt (PInt 1), MaxLen (PInt 3)])"
    by simp
  with rebuild_annotation_round_trip_raises [OF h]
  have "from_annotation (ListAnnotated (PType ''int'') [Gt (PInt 1), MaxLen (PInt 3)])
     = Inl tuple_list_error" by blast
  moreover from rebuild_annotation_round_trip_raises [OF g] n
  have "rebuild_annotation gt_descriptor
     = Inl (AttributeError ''object has no attribute __module__'')" by blast
  ultimately show ?thesis using r by blast
qed

section \<open>The annotation with a default, unfolded\<close>

lemma find_field_info_arg_None_iff:
  "find_field_info_arg ms = None \<longleftrightarrow> filter is_FieldInfo ms = []"
  by (induction ms) (auto simp: is_FieldInfo_def split: pyval.splits)

lemma from_annotated_attribute_plain:
  assumes "\<not> is_FieldInfo v" and "\<not> is_DataclassField v"
      and "unwrap_final a = Inr (final0, ann)"
  shows "from_annotated_attribute a v =
     (if is_annotated ann then
        (case unpack_args ann of
           Inl e \<Rightarrow> ([], Inl e)
         | Inr (first_arg, extra_args) \<Rightarrow>
             (case find_field_info_arg extra_args of
                Some field_info \<Rightarrow>
                  if \<not> is_required field_info
                  then ([], Inl (TypeError
                         ''Default may not be specified twice on the same field''))
                  else ([], Inr (set_metadata
                                  (metadata field_info @ non_field_info_args extra_args)
                                  (set_annotation first_arg
                                    (set_default v field_info))))
              | None \<Rightarrow>
                  ([], FieldInfo_init [(''annotation'', ann), (''default'', v),
                                       (''final'', PBool final0)])))
      else ([], FieldInfo_init [(''annotation'', ann), (''default'', v),
                                (''final'', PBool final0)]))"
  using assms
  by (cases v; hypsubst_thin)
     (simp_all add: from_annotated_attribute_def is_FieldInfo_def is_DataclassField_def)

lemma from_annotated_attribute_descriptor:
  assumes "unwrap_final a = Inr (final0, ann)"
  shows "from_annotated_attribute a (PFieldInfo d) =
          (case extract_metadata ann of
             Inl e \<Rightarrow> ([], Inl e)
           | Inr (ann', annotation_metadata) \<Rightarrow>
               ([], Inr (set_final (PBool final0)
                          (set_metadata (metadata d @ annotation_metadata)
                            (set_annotation ann' d)))))"
  using assms by (simp add: from_annotated_attribute_def)

lemma unwrap_final_strip:
  "unwrap_final a = Inr (is_finalvar a, case a of FinalOf t \<Rightarrow> t | _ \<Rightarrow> a)"
  by (cases a) (simp_all add: unwrap_final_cases is_finalvar_def)

lemma extract_metadata_twice_iff:
  "extract_metadata a = Inl (TypeError ''Field may not be used twice on the same field'') \<longleftrightarrow>
     (\<exists>b ms. a = Annotated b ms \<and> filter is_FieldInfo ms \<noteq> [])"
proof (cases "is_annotated a")
  case True
  then show ?thesis
  proof (cases rule: is_annotated_cases)
    case (1 b ms)
    then show ?thesis
      by (simp add: extract_metadata_Annotated find_field_info_arg_None_iff)
  next
    case (2 b ms)
    then show ?thesis by (simp add: extract_metadata_ListAnnotated)
  qed
next
  case False
  then have "\<And>b ms. a \<noteq> Annotated b ms" by (auto simp: is_annotated_def)
  with False show ?thesis by (simp add: extract_metadata_plain)
qed

lemma extract_metadata_Inl:
  assumes "extract_metadata a = Inl e"
  shows "e = TypeError ''Field may not be used twice on the same field'' \<or> e = tuple_list_error"
proof (cases "is_annotated a")
  case True
  then show ?thesis
  proof (cases rule: is_annotated_cases)
    case (1 b ms)
    with assms show ?thesis by (simp add: extract_metadata_Annotated split: if_splits)
  next
    case (2 b ms)
    with assms show ?thesis by (simp add: extract_metadata_ListAnnotated)
  qed
next
  case False
  with assms show ?thesis by (simp add: extract_metadata_plain)
qed

lemma FieldInfo_init_twice_iff:
  "FieldInfo_init kw = Inl (TypeError ''Field may not be used twice on the same field'') \<longleftrightarrow>
   extract_metadata (kw_get kw ''annotation'' PNone)
     = Inl (TypeError ''Field may not be used twice on the same field'')"
  by (cases "extract_metadata (kw_get kw ''annotation'' PNone)")
     (auto simp: FieldInfo_init_def Let_def split: prod.splits)

lemma FieldInfo_init_annotation_default_final:
  assumes "extract_metadata a = Inr (b, ms)"
  shows "FieldInfo_init [(''annotation'', a), (''default'', v), (''final'', fl)] =
           Inr (FieldInfo b (if v = Ellipsis then Undefined else v) PNone PNone PNone PNone
                  PNone PNone PNone PNone PNone PNone PNone PNone PNone fl PNone (PBool True)
                  PNone PNone ms)"
  using assms
  by (simp add: FieldInfo_init_def Let_def kw_pop_all_def init_popped_def)

lemma from_annotation_result:
  "(\<exists>f. from_annotation a = Inr f) \<or> from_annotation a = Inl tuple_list_error"
proof -
  define c where c: "c = (case a of FinalOf t \<Rightarrow> t | _ \<Rightarrow> a)"
  have u: "unwrap_final a = Inr (is_finalvar a, c)"
    unfolding c by (rule unwrap_final_strip)
  show ?thesis
  proof (cases "is_annotated c")
    case False
    then have "extract_metadata c = Inr (c, [])" by (rule extract_metadata_plain)
    from FieldInfo_init_annotation_final [OF this] u False show ?thesis
      by (simp add: from_annotation_def)
  next
    case True
    then show ?thesis
    proof (cases rule: is_annotated_cases)
      case (1 b ms)
      show ?thesis
      proof (cases "find_field_info_arg ms")
        case None
        then have "extract_metadata c = Inr (b, ms)"
          by (simp add: 1 extract_metadata_Annotated)
        from FieldInfo_init_annotation_final [OF this] u 1 None show ?thesis
          by (simp add: from_annotation_def is_annotated_def)
      next
        case (Some d)
        with u 1 show ?thesis
          by (simp add: from_annotation_def is_annotated_def)
      qed
    next
      case (2 b ms)
      with u show ?thesis
        by (simp add: from_annotation_def is_annotated_def)
    qed
  qed
qed

lemma from_annotated_attribute_plain_result:
  assumes "\<not> is_FieldInfo v" and "\<not> is_DataclassField v"
  shows "(\<exists>f. from_annotated_attribute a v = ([], Inr f)) \<or>
         from_annotated_attribute a v =
           ([], Inl (TypeError ''Default may not be specified twice on the same field'')) \<or>
         from_annotated_attribute a v = ([], Inl tuple_list_error)"
proof -
  define c where c: "c = (case a of FinalOf t \<Rightarrow> t | _ \<Rightarrow> a)"
  have u: "unwrap_final a = Inr (is_finalvar a, c)"
    unfolding c by (rule unwrap_final_strip)
  note p = from_annotated_attribute_plain [OF assms u]
  show ?thesis
  proof (cases "is_annotated c")
    case False
    then have "extract_metadata c = Inr (c, [])" by (rule extract_metadata_plain)
    from FieldInfo_init_annotation_default_final [OF this] False show ?thesis
      by (simp add: p)
  next
    case True
    then show ?thesis
    proof (cases rule: is_annotated_cases)
      case (1 b ms)
      show ?thesis
      proof (cases "find_field_info_arg ms")
        case None
        then have "extract_metadata c = Inr (b, ms)"
          by (simp add: 1 extract_metadata_Annotated)
        from FieldInfo_init_annotation_default_final [OF this] 1 None show ?thesis
          by (simp add: p is_annotated_def)
      next
        case (Some d)
        with 1 show ?thesis
          by (simp add: p is_annotated_def)
      qed
    next
      case (2 b ms)
      then show ?thesis by (simp add: p is_annotated_def)
    qed
  qed
qed

section \<open>The errors of the builder and of the external declaration\<close>

lemma kw_get_pop_all:
  "kw_get (kw_pop_all ks kw) k d = (if k \<in> set ks then d else kw_get kw k d)"
  by (induction kw) (auto simp: kw_pop_all_def split: if_splits)

lemma FieldInfo_init_mutual_iff:
  "FieldInfo_init kw = Inl (TypeError ''cannot specify both default and default_factory'') \<longleftrightarrow>
     (\<exists>x. extract_metadata (kw_get kw ''annotation'' PNone) = Inr x) \<and>
     kw_get kw ''default'' Undefined \<noteq> Undefined \<and>
     kw_get kw ''default'' Undefined \<noteq> Ellipsis \<and>
     kw_get kw ''default_factory'' PNone \<noteq> PNone"
proof (cases "extract_metadata (kw_get kw ''annotation'' PNone)")
  case (Inl e)
  with extract_metadata_Inl [OF Inl] show ?thesis
    by (auto simp: FieldInfo_init_def)
next
  case (Inr x)
  then show ?thesis
    by (cases x) (auto simp: FieldInfo_init_def Let_def)
qed

lemma snd_if_Inl_neqD:
  "snd (if c then (w, Inl e') else r) = Inl e \<Longrightarrow> e' \<noteq> e \<Longrightarrow> \<not> c \<and> snd r = Inl e"
  by (cases c) auto

lemma Field_mutual_iff:
  "snd (Field args) = Inl (TypeError ''cannot specify both default and default_factory'') \<longleftrightarrow>
     kw_get args ''const'' PNone = PNone \<and>
     kw_get args ''unique_items'' PNone = PNone \<and>
     kw_get args ''regex'' PNone = PNone \<and>
     (truthy (kw_get args ''validation_alias'' PNone) \<longrightarrow>
        is_str (kw_get args ''validation_alias'' PNone) \<or>
        is_AliasChoices (kw_get args ''validation_alias'' PNone) \<or>
        is_AliasPath (kw_get args ''validation_alias'' PNone)) \<and>
     kw_get args ''default'' Undefined \<noteq> Undefined \<and>
     kw_get args ''default'' Undefined \<noteq> Ellipsis \<and>
     kw_get args ''default_factory'' PNone \<noteq> PNone"
  (is "?L \<longleftrightarrow> ?R")
proof
  assume ?L
  then show ?R
    unfolding Field_def Let_def
    apply -
    apply (drule snd_if_Inl_neqD, simp, erule conjE)+
    apply (simp add: from_field_def FieldInfo_init_mutual_iff kw_get_pop_all Field_params_def)
    done
next
  assume ?R
  then show ?L
    unfolding Field_def Let_def
    by (simp add: from_field_def FieldInfo_init_mutual_iff kw_get_pop_all Field_params_def
        extract_metadata_def)
qed

lemma kw_get_absent:
  "k \<notin> fst ` set kw \<Longrightarrow> kw_get kw k d = d"
  by (induction kw) auto

lemma from_dataclass_field_mutual_iff:
  "snd (from_dataclass_field dc)
     = Inl (TypeError ''cannot specify both default and default_factory'') \<longleftrightarrow>
   set [''default'', ''default_factory'', ''repr''] \<inter> fst ` set (dc_metadata dc) = {} \<and>
   snd (Field ((''default'', if dc_default dc = MISSING then Undefined else dc_default dc) #
               (''default_factory'', if dc_default_factory dc = MISSING then PNone
                                     else dc_default_factory dc) #
               (''repr'', dc_repr dc) # dc_metadata dc))
     = Inl (TypeError ''cannot specify both default and default_factory'')"
proof -
  let ?args = "(''default'', if dc_default dc = MISSING then Undefined else dc_default dc) #
               (''default_factory'', if dc_default_factory dc = MISSING then PNone
                                     else dc_default_factory dc) #
               (''repr'', dc_repr dc) # dc_metadata dc"
  obtain ws r where f: "Field ?args = (ws, r)" by (cases "Field ?args")
  show ?thesis
  proof (cases r)
    case (Inl e)
    with f show ?thesis
      by (simp add: from_dataclass_field_def Let_def)
  next
    case (Inr field)
    show ?thesis
    proof (cases "extract_metadata (dc_type dc)")
      case (Inl e)
      with extract_metadata_Inl [OF Inl] f Inr show ?thesis
        by (auto simp: from_dataclass_field_def Let_def)
    next
      case ex: (Inr x)
      with f Inr show ?thesis
        by (cases x) (simp add: from_dataclass_field_def Let_def)
    qed
  qed
qed

lemma from_annotated_attribute_dataclass_error:
  assumes "snd (from_dataclass_field dc) = Inl e"
  shows "snd (from_annotated_attribute a (PDataclassField dc)) = Inl e"
proof -
  define c where c: "c = (case a of FinalOf t \<Rightarrow> t | _ \<Rightarrow> a)"
  define fin where "fin = is_finalvar a"
  have u: "unwrap_final a = Inr (fin, c)"
    unfolding c fin_def by (cases a) (simp_all add: unwrap_final_cases is_finalvar_def)
  obtain ws where "from_dataclass_field dc = (ws, Inl e)"
    using assms by (cases "from_dataclass_field dc") simp
  then show ?thesis
    by (simp add: from_annotated_attribute_def u version_lt_3_8_def Let_def)
qed

lemma extract_metadata_PNone [simp]: "extract_metadata PNone = Inr (PNone, [])"
  by (simp add: extract_metadata_def)

lemma Field_not_twice:
  "snd (Field args) \<noteq> Inl (TypeError ''Field may not be used twice on the same field'')"
proof
  assume "snd (Field args) = Inl (TypeError ''Field may not be used twice on the same field'')"
  then show False
    unfolding Field_def Let_def
    apply -
    apply (drule snd_if_Inl_neqD, simp, erule conjE)+
    apply (simp add: from_field_def FieldInfo_init_twice_iff)
    done
qed

lemma from_dataclass_field_unfold:
  "from_dataclass_field dc =
     (if set [''default'', ''default_factory'', ''repr''] \<inter> fst ` set (dc_metadata dc) \<noteq> {}
      then ([], Inl (TypeError ''Field() got multiple values for keyword argument''))
      else
        (case Field ((''default'', if dc_default dc = MISSING then Undefined
                                   else dc_default dc) #
                     (''default_factory'', if dc_default_factory dc = MISSING then PNone
                                           else dc_default_factory dc) #
                     (''repr'', dc_repr dc) # dc_metadata dc) of
           (ws, Inl e) \<Rightarrow> (ws, Inl e)
         | (ws, Inr field) \<Rightarrow>
             (case extract_metadata (dc_type dc) of
                Inl e \<Rightarrow> (ws, Inl e)
              | Inr (ann, annotation_metadata) \<Rightarrow>
                  (ws, Inr (set_metadata (metadata field @ annotation_metadata)
                             (set_annotation ann field))))))"
  unfolding from_dataclass_field_def Let_def ..

lemma from_dataclass_field_twice_iff:
  "snd (from_dataclass_field dc)
     = Inl (TypeError ''Field may not be used twice on the same field'') \<longleftrightarrow>
   (\<exists>f. snd (from_dataclass_field
            (DataclassField (dc_default dc) (dc_default_factory dc) (dc_repr dc)
               (dc_metadata dc) PNone (dc_kw_only dc))) = Inr f) \<and>
   extract_metadata (dc_type dc)
     = Inl (TypeError ''Field may not be used twice on the same field'')"
proof -
  let ?args = "(''default'', if dc_default dc = MISSING then Undefined else dc_default dc) #
               (''default_factory'', if dc_default_factory dc = MISSING then PNone
                                     else dc_default_factory dc) #
               (''repr'', dc_repr dc) # dc_metadata dc"
  let ?bare = "DataclassField (dc_default dc) (dc_default_factory dc) (dc_repr dc)
               (dc_metadata dc) PNone (dc_kw_only dc)"
  obtain ws r where f: "Field ?args = (ws, r)" by (cases "Field ?args")
  note d1 = from_dataclass_field_unfold [of dc, unfolded f]
  note d0 = from_dataclass_field_unfold [of ?bare, unfolded dataclass_field.sel f
      extract_metadata_PNone]
  show ?thesis
  proof (cases "set [''default'', ''default_factory'', ''repr'']
                  \<inter> fst ` set (dc_metadata dc) = {}")
    case False
    then show ?thesis by (simp add: d0 d1)
  next
    case ok: True
    show ?thesis
    proof (cases r)
      case (Inl e)
      with Field_not_twice [of ?args] f
      have "e \<noteq> TypeError ''Field may not be used twice on the same field''" by auto
      with Inl ok show ?thesis by (simp add: d0 d1)
    next
      case (Inr field)
      show ?thesis
      proof (cases "extract_metadata (dc_type dc)")
        case (Inl e)
        with Inr ok show ?thesis by (simp add: d0 d1)
      next
        case ex: (Inr x)
        with Inr ok show ?thesis
          by (cases x) (simp add: d0 d1)
      qed
    qed
  qed
qed

lemma from_annotated_attribute_dataclass_twice_iff:
  "snd (from_annotated_attribute a (PDataclassField dc))
     = Inl (TypeError ''Field may not be used twice on the same field'') \<longleftrightarrow>
   snd (from_dataclass_field dc)
     = Inl (TypeError ''Field may not be used twice on the same field'') \<or>
   ((\<exists>pf. snd (from_dataclass_field dc) = Inr pf) \<and>
    extract_metadata
      (case (case a of FinalOf t \<Rightarrow> t | _ \<Rightarrow> a) of
         InitVar \<Rightarrow> AnyType | InitVarOf t \<Rightarrow> t | c \<Rightarrow> c)
      = Inl (TypeError ''Field may not be used twice on the same field''))"
proof -
  define c where c: "c = (case a of FinalOf t \<Rightarrow> t | _ \<Rightarrow> a)"
  have u: "unwrap_final a = Inr (is_finalvar a, c)"
    unfolding c by (rule unwrap_final_strip)
  define ann1 where "ann1 = (case c of InitVar \<Rightarrow> AnyType | InitVarOf t \<Rightarrow> t | c \<Rightarrow> c)"
  have a1: "(if c = InitVar then AnyType else (case c of InitVarOf t \<Rightarrow> t | _ \<Rightarrow> c)) = ann1"
    unfolding ann1_def by (cases c) simp_all
  obtain ws r where f: "from_dataclass_field dc = (ws, r)"
    by (cases "from_dataclass_field dc")
  show ?thesis
  proof (cases r)
    case (Inl e)
    with f show ?thesis
      by (simp add: from_annotated_attribute_def u version_lt_3_8_def Let_def)
  next
    case (Inr pf)
    show ?thesis
    proof (cases "extract_metadata ann1")
      case (Inl e)
      with f Inr show ?thesis
        unfolding c [symmetric] ann1_def [symmetric]
        by (simp add: from_annotated_attribute_def u version_lt_3_8_def Let_def a1)
    next
      case ex: (Inr x)
      with f Inr show ?thesis
        unfolding c [symmetric] ann1_def [symmetric]
        by (cases x)
           (simp add: from_annotated_attribute_def u version_lt_3_8_def Let_def a1)
    qed
  qed
qed

lemma from_annotation_Annotated_ok:
  assumes "a = Annotated b ms \<or> a = FinalOf (Annotated b ms)"
  shows "\<exists>f. from_annotation a = Inr f"
proof -
  have u: "unwrap_final a = Inr (is_finalvar a, Annotated b ms)"
    using assms by (auto simp: unwrap_final_strip)
  show ?thesis
  proof (cases "find_field_info_arg ms")
    case None
    then have "extract_metadata (Annotated b ms) = Inr (b, ms)"
      by (simp add: extract_metadata_Annotated)
    from FieldInfo_init_annotation_final [OF this] u None show ?thesis
      by (simp add: from_annotation_def is_annotated_def)
  next
    case (Some d)
    with u show ?thesis
      by (simp add: from_annotation_def is_annotated_def)
  qed
qed

section \<open>Descriptors embedded in an annotation\<close>

text \<open>
  Claim C3, as the code has it. The error \<^verbatim>\<open>Field may not be used twice on the same field\<close>
  is the error of \<^verbatim>\<open>_extract_metadata\<close>, raised exactly when the annotation it is given is
  an annotated form that embeds at least one descriptor. So the general constructor raises it
  exactly when its \<^verbatim>\<open>annotation\<close> keyword is such a form; the annotation+default path with
  a descriptor as the default raises it exactly when the annotation, bare or under a final
  marker, is such a form; the external-declaration path raises it exactly when the builder
  accepts the declaration and the declaration's own type is such a form; and the
  annotation+default path with an external declaration as the default raises it exactly when
  the external-declaration path does, or that path succeeds and the annotation it works on is
  such a form. An annotated form that embeds at most one descriptor is accepted by the
  bare-annotation path, and does not draw this error from the annotation+default path with a
  plain default.
\<close>

theorem field_used_twice_rule:
  "(extract_metadata a = Inl (TypeError ''Field may not be used twice on the same field'') \<longleftrightarrow>
      (\<exists>b ms. a = Annotated b ms \<and> filter is_FieldInfo ms \<noteq> [])) \<and>
   (FieldInfo_init kw = Inl (TypeError ''Field may not be used twice on the same field'') \<longleftrightarrow>
      (\<exists>b ms. kw_get kw ''annotation'' PNone = Annotated b ms \<and> filter is_FieldInfo ms \<noteq> [])) \<and>
   (snd (from_annotated_attribute a (PFieldInfo d0))
        = Inl (TypeError ''Field may not be used twice on the same field'') \<longleftrightarrow>
      (\<exists>b ms. (a = Annotated b ms \<or> a = FinalOf (Annotated b ms)) \<and>
               filter is_FieldInfo ms \<noteq> [])) \<and>
   (snd (from_dataclass_field dc)
        = Inl (TypeError ''Field may not be used twice on the same field'') \<longleftrightarrow>
      (\<exists>f. snd (from_dataclass_field
               (DataclassField (dc_default dc) (dc_default_factory dc) (dc_repr dc)
                  (dc_metadata dc) PNone (dc_kw_only dc))) = Inr f) \<and>
      (\<exists>b ms. dc_type dc = Annotated b ms \<and> filter is_FieldInfo ms \<noteq> [])) \<and>
   (snd (from_annotated_attribute a (PDataclassField dc))
        = Inl (TypeError ''Field may not be used twice on the same field'') \<longleftrightarrow>
      snd (from_dataclass_field dc)
        = Inl (TypeError ''Field may not be used twice on the same field'') \<or>
      ((\<exists>pf. snd (from_dataclass_field dc) = Inr pf) \<and>
       (\<exists>b ms. (case (case a of FinalOf t \<Rightarrow> t | _ \<Rightarrow> a) of
                   InitVar \<Rightarrow> AnyType | InitVarOf t \<Rightarrow> t | c \<Rightarrow> c) = Annotated b ms \<and>
                filter is_FieldInfo ms \<noteq> []))) \<and>
   ((a = Annotated b0 ms0 \<or> a = FinalOf (Annotated b0 ms0)) \<and>
    length (filter is_FieldInfo ms0) \<le> 1 \<longrightarrow>
      (\<exists>f. from_annotation a = Inr f)) \<and>
   ((a = Annotated b0 ms0 \<or> a = FinalOf (Annotated b0 ms0)) \<and>
    length (filter is_FieldInfo ms0) \<le> 1 \<and> \<not> is_FieldInfo v \<and> \<not> is_DataclassField v \<longrightarrow>
      snd (from_annotated_attribute a v)
        \<noteq> Inl (TypeError ''Field may not be used twice on the same field''))"
proof (intro conjI)
  show "extract_metadata a = Inl (TypeError ''Field may not be used twice on the same field'') \<longleftrightarrow>
      (\<exists>b ms. a = Annotated b ms \<and> filter is_FieldInfo ms \<noteq> [])"
    by (rule extract_metadata_twice_iff)
  show "FieldInfo_init kw = Inl (TypeError ''Field may not be used twice on the same field'') \<longleftrightarrow>
      (\<exists>b ms. kw_get kw ''annotation'' PNone = Annotated b ms \<and> filter is_FieldInfo ms \<noteq> [])"
    by (simp only: FieldInfo_init_twice_iff extract_metadata_twice_iff)
  show "snd (from_annotated_attribute a (PFieldInfo d0))
        = Inl (TypeError ''Field may not be used twice on the same field'') \<longleftrightarrow>
      (\<exists>b ms. (a = Annotated b ms \<or> a = FinalOf (Annotated b ms)) \<and>
               filter is_FieldInfo ms \<noteq> [])"
  proof -
    define c where c: "c = (case a of FinalOf t \<Rightarrow> t | _ \<Rightarrow> a)"
    have u: "unwrap_final a = Inr (is_finalvar a, c)"
      unfolding c by (rule unwrap_final_strip)
    have "snd (from_annotated_attribute a (PFieldInfo d0))
            = Inl (TypeError ''Field may not be used twice on the same field'') \<longleftrightarrow>
          extract_metadata c = Inl (TypeError ''Field may not be used twice on the same field'')"
      by (cases "extract_metadata c")
         (auto simp: from_annotated_attribute_descriptor [OF u])
    also have "\<dots> \<longleftrightarrow> (\<exists>b ms. c = Annotated b ms \<and> filter is_FieldInfo ms \<noteq> [])"
      by (rule extract_metadata_twice_iff)
    also have "\<dots> \<longleftrightarrow> (\<exists>b ms. (a = Annotated b ms \<or> a = FinalOf (Annotated b ms)) \<and>
               filter is_FieldInfo ms \<noteq> [])"
      unfolding c by (cases a) auto
    finally show ?thesis .
  qed
  show "snd (from_dataclass_field dc)
        = Inl (TypeError ''Field may not be used twice on the same field'') \<longleftrightarrow>
      (\<exists>f. snd (from_dataclass_field
               (DataclassField (dc_default dc) (dc_default_factory dc) (dc_repr dc)
                  (dc_metadata dc) PNone (dc_kw_only dc))) = Inr f) \<and>
      (\<exists>b ms. dc_type dc = Annotated b ms \<and> filter is_FieldInfo ms \<noteq> [])"
    by (simp only: from_dataclass_field_twice_iff extract_metadata_twice_iff)
  show "snd (from_annotated_attribute a (PDataclassField dc))
        = Inl (TypeError ''Field may not be used twice on the same field'') \<longleftrightarrow>
      snd (from_dataclass_field dc)
        = Inl (TypeError ''Field may not be used twice on the same field'') \<or>
      ((\<exists>pf. snd (from_dataclass_field dc) = Inr pf) \<and>
       (\<exists>b ms. (case (case a of FinalOf t \<Rightarrow> t | _ \<Rightarrow> a) of
                   InitVar \<Rightarrow> AnyType | InitVarOf t \<Rightarrow> t | c \<Rightarrow> c) = Annotated b ms \<and>
                filter is_FieldInfo ms \<noteq> []))"
    by (simp only: from_annotated_attribute_dataclass_twice_iff extract_metadata_twice_iff)
  show "(a = Annotated b0 ms0 \<or> a = FinalOf (Annotated b0 ms0)) \<and>
    length (filter is_FieldInfo ms0) \<le> 1 \<longrightarrow>
      (\<exists>f. from_annotation a = Inr f)"
    by (blast intro: from_annotation_Annotated_ok)
  show "(a = Annotated b0 ms0 \<or> a = FinalOf (Annotated b0 ms0)) \<and>
    length (filter is_FieldInfo ms0) \<le> 1 \<and> \<not> is_FieldInfo v \<and> \<not> is_DataclassField v \<longrightarrow>
      snd (from_annotated_attribute a v)
        \<noteq> Inl (TypeError ''Field may not be used twice on the same field'')"
    using from_annotated_attribute_plain_result [of v a] by auto
qed

theorem field_used_twice_rule_witness:
  "extract_metadata (Annotated (PType ''int'') [PFieldInfo gt_descriptor])
     = Inl (TypeError ''Field may not be used twice on the same field'') \<and>
   snd (from_dataclass_field
          (DataclassField MISSING MISSING (PBool True) []
             (Annotated (PType ''int'') [PFieldInfo gt_descriptor]) None))
     = Inl (TypeError ''Field may not be used twice on the same field'') \<and>
   snd (from_annotated_attribute (PType ''int'')
          (PDataclassField (DataclassField MISSING MISSING (PBool True) []
             (Annotated (PType ''int'') [PFieldInfo gt_descriptor]) None)))
     = Inl (TypeError ''Field may not be used twice on the same field'') \<and>
   from_annotation (Annotated (PType ''int'') [PFieldInfo gt_descriptor])
     = Inr (projr (from_annotation (Annotated (PType ''int'') [PFieldInfo gt_descriptor]))) \<and>
   snd (from_annotated_attribute
          (Annotated (PType ''int'') [PFieldInfo gt_descriptor]) (PInt 4))
     \<noteq> Inl (TypeError ''Field may not be used twice on the same field'')"
proof -
  let ?ms = "[PFieldInfo gt_descriptor]"
  let ?one = "Annotated (PType ''int'') ?ms"
  let ?dc = "DataclassField MISSING MISSING (PBool True) [] ?one None"
  let ?bare = "DataclassField MISSING MISSING (PBool True) [] PNone None"
  have h1: "\<exists>b ms. ?one = Annotated b ms \<and> filter is_FieldInfo ms \<noteq> []"
    by (simp add: is_FieldInfo_def)
  have h2: "\<exists>f. snd (from_dataclass_field ?bare) = Inr f"
  proof -
    have "snd (from_dataclass_field ?bare) = Inr (projr (snd (from_dataclass_field ?bare)))"
      by code_simp
    then show ?thesis ..
  qed
  have h3: "length (filter is_FieldInfo ?ms) \<le> 1" by simp
  have h4: "\<not> is_FieldInfo (PInt 4)" "\<not> is_DataclassField (PInt 4)"
    by (simp_all add: is_FieldInfo_def is_DataclassField_def)
  have s: "DataclassField (dc_default ?dc) (dc_default_factory ?dc) (dc_repr ?dc)
             (dc_metadata ?dc) PNone (dc_kw_only ?dc) = ?bare" "dc_type ?dc = ?one"
    by simp_all
  note t = field_used_twice_rule [where a = ?one and dc = ?dc and ?b0.0 = "PType ''int''"
      and ?ms0.0 = ?ms and v = "PInt 4", unfolded s]
  note t' = field_used_twice_rule [where a = "PType ''int''" and dc = ?dc]
  note c1 = t [THEN conjunct1]
  note c4 = t [THEN conjunct2, THEN conjunct2, THEN conjunct2, THEN conjunct1]
  note c5 = t' [THEN conjunct2, THEN conjunct2, THEN conjunct2, THEN conjunct2,
      THEN conjunct1]
  note c6 = t [THEN conjunct2, THEN conjunct2, THEN conjunct2, THEN conjunct2,
      THEN conjunct2, THEN conjunct1]
  note c7 = t [THEN conjunct2, THEN conjunct2, THEN conjunct2, THEN conjunct2,
      THEN conjunct2, THEN conjunct2]
  from c1 h1 have e: "extract_metadata ?one
     = Inl (TypeError ''Field may not be used twice on the same field'')" by (rule iffD2)
  from h2 h1 have "(\<exists>f. snd (from_dataclass_field ?bare) = Inr f) \<and>
     (\<exists>b ms. ?one = Annotated b ms \<and> filter is_FieldInfo ms \<noteq> [])" by (rule conjI)
  with c4 have d: "snd (from_dataclass_field ?dc)
     = Inl (TypeError ''Field may not be used twice on the same field'')" by (rule iffD2)
  from c5 d have a: "snd (from_annotated_attribute (PType ''int'') (PDataclassField ?dc))
     = Inl (TypeError ''Field may not be used twice on the same field'')"
    by (rule_tac iffD2) (assumption, rule disjI1, assumption)
  from c6 h3 obtain f where f: "from_annotation ?one = Inr f" by auto
  then have f': "from_annotation ?one = Inr (projr (from_annotation ?one))" by simp
  from c7 h3 h4 have p: "snd (from_annotated_attribute ?one (PInt 4))
     \<noteq> Inl (TypeError ''Field may not be used twice on the same field'')" by auto
  from e d a f' p show ?thesis by (intro conjI)
qed

text \<open>The claim as stated rejects an annotation with two embedded descriptors on every path
  and accepts one with a single embedded descriptor. The general constructor rejects
  \<^verbatim>\<open>Annotated[int, Field(gt=1)]\<close>, which embeds one; and neither the bare-annotation
  path nor the annotation+default path raises the error for
  \<^verbatim>\<open>Annotated[int, Field(gt=1), Field(lt=9)]\<close>, which embeds two.\<close>

theorem two_embedded_descriptors_counterexample:
  "FieldInfo_init [(''annotation'', Annotated (PType ''int'') [PFieldInfo gt_descriptor])]
     = Inl (TypeError ''Field may not be used twice on the same field'') \<and>
   from_annotation (Annotated (PType ''int'') [PFieldInfo gt_descriptor, PFieldInfo lt_descriptor])
     \<noteq> Inl (TypeError ''Field may not be used twice on the same field'') \<and>
   snd (from_annotated_attribute
          (Annotated (PType ''int'') [PFieldInfo gt_descriptor, PFieldInfo lt_descriptor])
          (PInt 4))
     \<noteq> Inl (TypeError ''Field may not be used twice on the same field'')"
  by code_simp

section \<open>A default for an annotation that embeds a descriptor\<close>

text \<open>
  Claim C2, as the code has it. For every annotation that embeds a descriptor (an annotated
  form, bare or under a final marker, whose first embedded descriptor is \<open>d\<close>) and every
  supplied default that is a plain value, neither a descriptor nor an external field
  declaration: if \<open>d\<close> is required, the annotation+default path succeeds and the descriptor
  it produces has the supplied value as its default; if \<open>d\<close> is not required, the path fails
  with \<^verbatim>\<open>Default may not be specified twice on the same field\<close>.
\<close>

theorem annotated_attribute_embedded_descriptor:
  assumes "a = Annotated b extras \<or> a = FinalOf (Annotated b extras)"
      and "find_field_info_arg extras = Some d"
      and "\<not> is_FieldInfo v" and "\<not> is_DataclassField v"
  shows "(is_required d \<longrightarrow>
            (\<exists>f. from_annotated_attribute a v = ([], Inr f) \<and> default_value f = v \<and>
                 annotation f = b \<and> metadata f = metadata d @ non_field_info_args extras)) \<and>
         (\<not> is_required d \<longrightarrow>
            from_annotated_attribute a v =
              ([], Inl (TypeError ''Default may not be specified twice on the same field'')))"
proof -
  have "unwrap_final a = Inr (is_finalvar a, Annotated b extras)"
    using assms(1) by (auto simp: unwrap_final_cases is_finalvar_def)
  from from_annotated_attribute_plain [OF assms(3,4) this] assms(2)
  show ?thesis
    by (simp add: is_annotated_def)
qed

theorem annotated_attribute_embedded_descriptor_witness:
  "default_value (projr (snd (from_annotated_attribute
      (Annotated (PType ''int'') [PFieldInfo gt_descriptor]) (PInt 4)))) = PInt 4 \<and>
   from_annotated_attribute
      (Annotated (PType ''int'') [PFieldInfo (projr (snd (from_annotated_attribute
          (Annotated (PType ''int'') [PFieldInfo gt_descriptor]) (PInt 4))))])
      (PInt 5)
     = ([], Inl (TypeError ''Default may not be specified twice on the same field''))"
proof -
  let ?a1 = "Annotated (PType ''int'') [PFieldInfo gt_descriptor]"
  let ?r = "projr (snd (from_annotated_attribute ?a1 (PInt 4)))"
  let ?a2 = "Annotated (PType ''int'') [PFieldInfo ?r]"
  have p4: "\<not> is_FieldInfo (PInt 4)" "\<not> is_DataclassField (PInt 4)"
    and p5: "\<not> is_FieldInfo (PInt 5)" "\<not> is_DataclassField (PInt 5)"
    by (simp_all add: is_FieldInfo_def is_DataclassField_def)
  have req: "is_required gt_descriptor" by code_simp
  have e1: "find_field_info_arg [PFieldInfo gt_descriptor] = Some gt_descriptor" by simp
  have e2: "find_field_info_arg [PFieldInfo ?r] = Some ?r" by simp
  from annotated_attribute_embedded_descriptor [OF _ e1 p4, of ?a1 "PType ''int''"] req
  obtain f where f: "from_annotated_attribute ?a1 (PInt 4) = ([], Inr f)"
    "default_value f = PInt 4" by auto
  then have r: "?r = f" by simp
  with f have nreq: "\<not> is_required ?r" by (simp add: is_required_def)
  from annotated_attribute_embedded_descriptor [OF _ e2 p5, of ?a2 "PType ''int''"] nreq
  have "from_annotated_attribute ?a2 (PInt 5)
     = ([], Inl (TypeError ''Default may not be specified twice on the same field''))"
    by simp
  with r f show ?thesis by simp
qed

text \<open>The claim as stated covers every supplied default. When the supplied default is itself
  a descriptor the path extracts the annotation's metadata instead: with a required embedded
  descriptor it fails, and with an embedded descriptor that is not required the error is
  not the double-default error. Both times it is
  \<^verbatim>\<open>Field may not be used twice on the same field\<close>.\<close>

theorem descriptor_default_counterexample:
  "is_required gt_descriptor \<and>
   snd (from_annotated_attribute
          (Annotated (PType ''int'') [PFieldInfo gt_descriptor]) (PFieldInfo lt_descriptor))
     = Inl (TypeError ''Field may not be used twice on the same field'') \<and>
   is_required factory_descriptor = False \<and>
   snd (from_annotated_attribute
          (Annotated (PType ''int'') [PFieldInfo factory_descriptor]) (PFieldInfo lt_descriptor))
     = Inl (TypeError ''Field may not be used twice on the same field'') \<and>
   snd (from_annotated_attribute
          (Annotated (PType ''int'') [PFieldInfo factory_descriptor]) (PFieldInfo lt_descriptor))
     \<noteq> Inl (TypeError ''Default may not be specified twice on the same field'')"
  by code_simp

section \<open>Default and default factory\<close>

text \<open>
  Claim C1, as the code has it. Supplying both a concrete default and a default factory makes
  construction fail. In the general constructor, in the builder, in the external
  dataclass-style path and in \<^verbatim>\<open>PrivateAttr\<close> the error is
  \<^verbatim>\<open>cannot specify both default and default_factory\<close>, provided no earlier check of that
  path rejects the call (an annotation that embeds a descriptor, a removed legacy option, an
  invalid validation alias, a repeated keyword), and that error is raised only when both are
  supplied; with at most one, \<^verbatim>\<open>PrivateAttr\<close> returns the attribute. A concrete default
  is one that is neither \<^verbatim>\<open>Undefined\<close> nor, for a field descriptor, the Ellipsis. In the
  annotation+default path with a plain default the mutual-exclusion error is never raised:
  when the descriptor embedded in the annotation has a default factory, the path fails with
  \<^verbatim>\<open>Default may not be specified twice on the same field\<close>.
\<close>

theorem default_and_factory_exclusive:
  "(FieldInfo_init kw = Inl (TypeError ''cannot specify both default and default_factory'') \<longrightarrow>
      kw_get kw ''default'' Undefined \<notin> {Undefined, Ellipsis} \<and>
      kw_get kw ''default_factory'' PNone \<noteq> PNone) \<and>
   (kw_get kw ''default'' Undefined \<notin> {Undefined, Ellipsis} \<and>
    kw_get kw ''default_factory'' PNone \<noteq> PNone \<and>
    (\<exists>x. extract_metadata (kw_get kw ''annotation'' PNone) = Inr x) \<longrightarrow>
      FieldInfo_init kw = Inl (TypeError ''cannot specify both default and default_factory'')) \<and>
   (snd (Field args) = Inl (TypeError ''cannot specify both default and default_factory'') \<longrightarrow>
      kw_get args ''default'' Undefined \<notin> {Undefined, Ellipsis} \<and>
      kw_get args ''default_factory'' PNone \<noteq> PNone) \<and>
   (kw_get args ''default'' Undefined \<notin> {Undefined, Ellipsis} \<and>
    kw_get args ''default_factory'' PNone \<noteq> PNone \<and>
    kw_get args ''const'' PNone = PNone \<and>
    kw_get args ''unique_items'' PNone = PNone \<and>
    kw_get args ''regex'' PNone = PNone \<and>
    (is_str (kw_get args ''validation_alias'' PNone) \<or>
     is_AliasChoices (kw_get args ''validation_alias'' PNone) \<or>
     is_AliasPath (kw_get args ''validation_alias'' PNone) \<or>
     \<not> truthy (kw_get args ''validation_alias'' PNone)) \<longrightarrow>
      snd (Field args) = Inl (TypeError ''cannot specify both default and default_factory'')) \<and>
   (snd (from_dataclass_field dc)
      = Inl (TypeError ''cannot specify both default and default_factory'') \<longrightarrow>
      dc_default dc \<notin> {MISSING, Undefined, Ellipsis} \<and>
      dc_default_factory dc \<notin> {MISSING, PNone}) \<and>
   (dc_default dc \<notin> {MISSING, Undefined, Ellipsis} \<and>
    dc_default_factory dc \<notin> {MISSING, PNone} \<and>
    set [''default'', ''default_factory'', ''repr'', ''const'', ''unique_items'', ''regex'',
         ''validation_alias''] \<inter> fst ` set (dc_metadata dc) = {} \<longrightarrow>
      snd (from_dataclass_field dc)
        = Inl (TypeError ''cannot specify both default and default_factory'') \<and>
      snd (from_annotated_attribute a (PDataclassField dc))
        = Inl (TypeError ''cannot specify both default and default_factory'')) \<and>
   (PrivateAttr default' factory
      = Inl (TypeError ''cannot specify both default and default_factory'') \<longleftrightarrow>
      default' \<noteq> Undefined \<and> factory \<noteq> PNone) \<and>
   (default' = Undefined \<or> factory = PNone \<longrightarrow>
      PrivateAttr default' factory = Inr (ModelPrivateAttr default' factory)) \<and>
   (\<not> is_FieldInfo v \<and> \<not> is_DataclassField v \<longrightarrow>
      snd (from_annotated_attribute a v)
        \<noteq> Inl (TypeError ''cannot specify both default and default_factory'')) \<and>
   (\<not> is_FieldInfo v \<and> \<not> is_DataclassField v \<and>
    (a = Annotated b extras \<or> a = FinalOf (Annotated b extras)) \<and>
    find_field_info_arg extras = Some d \<and> default_factory d \<noteq> PNone \<longrightarrow>
      from_annotated_attribute a v =
        ([], Inl (TypeError ''Default may not be specified twice on the same field'')))"
proof (intro conjI)
  show "FieldInfo_init kw = Inl (TypeError ''cannot specify both default and default_factory'') \<longrightarrow>
      kw_get kw ''default'' Undefined \<notin> {Undefined, Ellipsis} \<and>
      kw_get kw ''default_factory'' PNone \<noteq> PNone"
    by (simp add: FieldInfo_init_mutual_iff)
  show "kw_get kw ''default'' Undefined \<notin> {Undefined, Ellipsis} \<and>
    kw_get kw ''default_factory'' PNone \<noteq> PNone \<and>
    (\<exists>x. extract_metadata (kw_get kw ''annotation'' PNone) = Inr x) \<longrightarrow>
      FieldInfo_init kw = Inl (TypeError ''cannot specify both default and default_factory'')"
    by (simp add: FieldInfo_init_mutual_iff)
  show "snd (Field args) = Inl (TypeError ''cannot specify both default and default_factory'') \<longrightarrow>
      kw_get args ''default'' Undefined \<notin> {Undefined, Ellipsis} \<and>
      kw_get args ''default_factory'' PNone \<noteq> PNone"
    by (simp add: Field_mutual_iff)
  show "kw_get args ''default'' Undefined \<notin> {Undefined, Ellipsis} \<and>
    kw_get args ''default_factory'' PNone \<noteq> PNone \<and>
    kw_get args ''const'' PNone = PNone \<and>
    kw_get args ''unique_items'' PNone = PNone \<and>
    kw_get args ''regex'' PNone = PNone \<and>
    (is_str (kw_get args ''validation_alias'' PNone) \<or>
     is_AliasChoices (kw_get args ''validation_alias'' PNone) \<or>
     is_AliasPath (kw_get args ''validation_alias'' PNone) \<or>
     \<not> truthy (kw_get args ''validation_alias'' PNone)) \<longrightarrow>
      snd (Field args) = Inl (TypeError ''cannot specify both default and default_factory'')"
    by (auto simp: Field_mutual_iff)
  show "snd (from_dataclass_field dc)
      = Inl (TypeError ''cannot specify both default and default_factory'') \<longrightarrow>
      dc_default dc \<notin> {MISSING, Undefined, Ellipsis} \<and>
      dc_default_factory dc \<notin> {MISSING, PNone}"
    by (auto simp: from_dataclass_field_mutual_iff Field_mutual_iff split: if_splits)
  show "dc_default dc \<notin> {MISSING, Undefined, Ellipsis} \<and>
    dc_default_factory dc \<notin> {MISSING, PNone} \<and>
    set [''default'', ''default_factory'', ''repr'', ''const'', ''unique_items'', ''regex'',
         ''validation_alias''] \<inter> fst ` set (dc_metadata dc) = {} \<longrightarrow>
      snd (from_dataclass_field dc)
        = Inl (TypeError ''cannot specify both default and default_factory'') \<and>
      snd (from_annotated_attribute a (PDataclassField dc))
        = Inl (TypeError ''cannot specify both default and default_factory'')"
  proof
    assume h: "dc_default dc \<notin> {MISSING, Undefined, Ellipsis} \<and>
      dc_default_factory dc \<notin> {MISSING, PNone} \<and>
      set [''default'', ''default_factory'', ''repr'', ''const'', ''unique_items'', ''regex'',
           ''validation_alias''] \<inter> fst ` set (dc_metadata dc) = {}"
    then have "snd (from_dataclass_field dc)
        = Inl (TypeError ''cannot specify both default and default_factory'')"
      by (simp add: from_dataclass_field_mutual_iff Field_mutual_iff truthy_def
          kw_get_absent)
    then show "snd (from_dataclass_field dc)
        = Inl (TypeError ''cannot specify both default and default_factory'') \<and>
      snd (from_annotated_attribute a (PDataclassField dc))
        = Inl (TypeError ''cannot specify both default and default_factory'')"
      by (simp add: from_annotated_attribute_dataclass_error)
  qed
  show "PrivateAttr default' factory
      = Inl (TypeError ''cannot specify both default and default_factory'') \<longleftrightarrow>
      default' \<noteq> Undefined \<and> factory \<noteq> PNone"
    by (simp add: PrivateAttr_def)
  show "default' = Undefined \<or> factory = PNone \<longrightarrow>
      PrivateAttr default' factory = Inr (ModelPrivateAttr default' factory)"
    by (auto simp: PrivateAttr_def)
  show "\<not> is_FieldInfo v \<and> \<not> is_DataclassField v \<longrightarrow>
      snd (from_annotated_attribute a v)
        \<noteq> Inl (TypeError ''cannot specify both default and default_factory'')"
    using from_annotated_attribute_plain_result [of v a] by auto
  show "\<not> is_FieldInfo v \<and> \<not> is_DataclassField v \<and>
    (a = Annotated b extras \<or> a = FinalOf (Annotated b extras)) \<and>
    find_field_info_arg extras = Some d \<and> default_factory d \<noteq> PNone \<longrightarrow>
      from_annotated_attribute a v =
        ([], Inl (TypeError ''Default may not be specified twice on the same field''))"
  proof
    assume h: "\<not> is_FieldInfo v \<and> \<not> is_DataclassField v \<and>
      (a = Annotated b extras \<or> a = FinalOf (Annotated b extras)) \<and>
      find_field_info_arg extras = Some d \<and> default_factory d \<noteq> PNone"
    then have "unwrap_final a = Inr (is_finalvar a, Annotated b extras)"
      by (auto simp: unwrap_final_cases is_finalvar_def)
    from from_annotated_attribute_plain [OF _ _ this, of v] h
    show "from_annotated_attribute a v =
        ([], Inl (TypeError ''Default may not be specified twice on the same field''))"
      by (simp add: is_annotated_def is_required_def)
  qed
qed

theorem default_and_factory_exclusive_witness:
  "FieldInfo_init [(''default'', PInt 1), (''default_factory'', list_factory)]
     = Inl (TypeError ''cannot specify both default and default_factory'') \<and>
   snd (Field [(''default'', PInt 1), (''default_factory'', list_factory)])
     = Inl (TypeError ''cannot specify both default and default_factory'') \<and>
   snd (from_dataclass_field
          (DataclassField (PInt 1) list_factory (PBool True) [] (PType ''int'') None))
     = Inl (TypeError ''cannot specify both default and default_factory'') \<and>
   PrivateAttr (PInt 1) list_factory
     = Inl (TypeError ''cannot specify both default and default_factory'') \<and>
   PrivateAttr (PInt 1) PNone = Inr (ModelPrivateAttr (PInt 1) PNone) \<and>
   from_annotated_attribute (Annotated (PType ''int'') [PFieldInfo factory_descriptor]) (PInt 4)
     = ([], Inl (TypeError ''Default may not be specified twice on the same field''))"
proof -
  let ?kw = "[(''default'', PInt 1), (''default_factory'', list_factory)]"
  let ?dc = "DataclassField (PInt 1) list_factory (PBool True) [] (PType ''int'') None"
  let ?a = "Annotated (PType ''int'') [PFieldInfo factory_descriptor]"
  have lf: "list_factory \<noteq> PNone" "list_factory \<noteq> MISSING"
    by (simp_all add: list_factory_def)
  have k: "kw_get ?kw ''default'' Undefined \<notin> {Undefined, Ellipsis}"
    "kw_get ?kw ''default_factory'' PNone \<noteq> PNone"
    "\<exists>x. extract_metadata (kw_get ?kw ''annotation'' PNone) = Inr x"
    "kw_get ?kw ''const'' PNone = PNone" "kw_get ?kw ''unique_items'' PNone = PNone"
    "kw_get ?kw ''regex'' PNone = PNone"
    "\<not> truthy (kw_get ?kw ''validation_alias'' PNone)"
    using lf by (simp_all add: extract_metadata_def truthy_def)
  have dc: "dc_default ?dc \<notin> {MISSING, Undefined, Ellipsis}"
    "dc_default_factory ?dc \<notin> {MISSING, PNone}"
    "set [''default'', ''default_factory'', ''repr'', ''const'', ''unique_items'', ''regex'',
          ''validation_alias''] \<inter> fst ` set (dc_metadata ?dc) = {}"
    using lf by simp_all
  have fd: "default_factory factory_descriptor \<noteq> PNone"
    by (simp add: factory_descriptor_def Field_def Let_def kw_pop_all_def from_field_def
        FieldInfo_init_def extract_metadata_def truthy_def list_factory_def)
  have v: "\<not> is_FieldInfo (PInt 4)" "\<not> is_DataclassField (PInt 4)"
    by (simp_all add: is_FieldInfo_def is_DataclassField_def)
  have e: "find_field_info_arg [PFieldInfo factory_descriptor] = Some factory_descriptor"
    by simp
  note t = default_and_factory_exclusive [where kw = ?kw and args = ?kw and dc = ?dc
      and a = ?a and v = "PInt 4" and b = "PType ''int''"
      and extras = "[PFieldInfo factory_descriptor]" and d = factory_descriptor]
  from t [of "PInt 1" list_factory] k
  have "FieldInfo_init ?kw = Inl (TypeError ''cannot specify both default and default_factory'')"
    by blast
  moreover from t [of "PInt 1" list_factory] k
  have "snd (Field ?kw) = Inl (TypeError ''cannot specify both default and default_factory'')"
    by blast
  moreover from t [of "PInt 1" list_factory] dc
  have "snd (from_dataclass_field ?dc)
    = Inl (TypeError ''cannot specify both default and default_factory'')"
    by blast
  moreover from t [of "PInt 1" list_factory] lf
  have "PrivateAttr (PInt 1) list_factory
    = Inl (TypeError ''cannot specify both default and default_factory'')"
    by simp
  moreover from t [of "PInt 1" PNone]
  have "PrivateAttr (PInt 1) PNone = Inr (ModelPrivateAttr (PInt 1) PNone)"
    by blast
  moreover from t [of "PInt 1" list_factory] v e fd
  have "from_annotated_attribute ?a (PInt 4)
    = ([], Inl (TypeError ''Default may not be specified twice on the same field''))"
    by blast
  ultimately show ?thesis by blast
qed

text \<open>The claim as stated gives the mutual-exclusion error on every path. For
  \<^verbatim>\<open>Annotated[int, Field(default_factory=list)]\<close> with the default 4 the
  annotation+default path raises the double-default error instead.\<close>

theorem embedded_factory_counterexample:
  "default_factory factory_descriptor = list_factory \<and>
   snd (from_annotated_attribute
          (Annotated (PType ''int'') [PFieldInfo factory_descriptor]) (PInt 4))
     = Inl (TypeError ''Default may not be specified twice on the same field'') \<and>
   snd (from_annotated_attribute
          (Annotated (PType ''int'') [PFieldInfo factory_descriptor]) (PInt 4))
     \<noteq> Inl (TypeError ''cannot specify both default and default_factory'')"
  by code_simp

end
